theory Spec2Isabelle
  imports Complex_Main
begin

section \<open>EqualValueEmbeddedConstraint: data model\<close>

text \<open>
  The constraint object of \<^verbatim>\<open>EqualValueEmbeddedConstraint.C\<close> as a record, its member
  functions as functions on that record. A member \<^verbatim>\<open>_name\<close> of the class is the field
  \<open>name\<close>; the loop members \<^verbatim>\<open>_i\<close>, \<^verbatim>\<open>_j\<close>, \<^verbatim>\<open>_qp\<close> are \<open>idx_i\<close>, \<open>idx_j\<close>,
  \<open>idx_qp\<close>. \<^verbatim>\<open>Real\<close> (a C++ double) is read as a real number: every statement below is about
  which expression the code evaluates, not about rounding. \<^verbatim>\<open>mooseError\<close> does not return;
  it is the error value of a sum type. An array is a list read with \<open>!\<close>; the C++ neither
  checks nor defines a read outside the array, so statements speak of the entry read and
  the statements that fix sizes give the range.
\<close>

type_synonym dof_id_type = nat
type_synonym subdomain_id_type = nat
type_synonym Point = "real \<times> real \<times> real"

datatype error = MooseError string

text \<open>
  \<^verbatim>\<open>enum class Formulation\<close> is declared in the header; the source names its enumerators
  \<^verbatim>\<open>KINEMATIC\<close> and \<^verbatim>\<open>PENALTY\<close> and has a \<^verbatim>\<open>default:\<close> branch for every other value the
  enum's underlying integer can hold, which is \<open>UnknownFormulation\<close> here.
\<close>

datatype Formulation = KINEMATIC | PENALTY | UnknownFormulation nat

text \<open>
  \<^verbatim>\<open>Moose::ConstraintType\<close> and \<^verbatim>\<open>Moose::ConstraintJacobianType\<close>; the last constructor of
  each stands for a value none of the \<^verbatim>\<open>case\<close> labels matches, where the functions
  fall through to their final \<^verbatim>\<open>return 0.0\<close>.
\<close>

datatype ConstraintType = Slave | Master | OtherConstraintType

datatype ConstraintJacobianType =
  SlaveSlave | SlaveMaster | MasterSlave | MasterMaster | OtherConstraintJacobianType

datatype DGJacobianType = ElementElement | ElementNeighbor | NeighborElement | NeighborNeighbor

record Node =
  node_id :: dof_id_type
  node_point :: Point
  dof_number :: "nat \<Rightarrow> nat \<Rightarrow> nat \<Rightarrow> dof_id_type"

record Elem =
  elem_id :: dof_id_type
  subdomain_id :: subdomain_id_type
  active :: bool
  node_ref_range :: "Node list"

text \<open>
  The mesh: its elements in iteration order, and the point locator it hands out
  (\<^verbatim>\<open>getPointLocator\<close>, in out-of-mesh mode: no element is \<open>None\<close>, the null pointer).
\<close>

record MooseMesh =
  elements :: "Elem list"
  pointLocator :: "Point \<Rightarrow> subdomain_id_type set \<Rightarrow> Elem option"

text \<open>
  libMesh's \<^verbatim>\<open>DenseMatrix\<close>: \<open>dm_m\<close> rows, \<open>dm_n\<close> columns, the entries row by row in
  \<open>dm_val\<close>; entry \<open>(i, j)\<close> is \<open>dm_val ! (i * dm_n + j)\<close>.
\<close>

record DenseMatrix =
  dm_m :: nat
  dm_n :: nat
  dm_val :: "real list"

text \<open>The calls made on the FE problem, in order, with their arguments.\<close>

datatype fe_call =
  SetNeighborSubdomainID "Elem option" nat
| ReinitNeighborPhys "Elem option" "Point list" nat

text \<open>What \<^verbatim>\<open>reinitNeighborPhys\<close> leaves in the neighbor (master) side arrays.\<close>

record NeighborPhys =
  np_u_master :: "real list"
  np_phi_master :: "real list list"
  np_test_master :: "real list list"

text \<open>The blocks of the constraint that receive \<^verbatim>\<open>+=\<close>.\<close>

datatype JacobianBlock = KeeBlock | KneBlock | NeighborBlock DGJacobianType nat nat

record EqualValueEmbeddedConstraint =
  mesh :: MooseMesh
  slave :: subdomain_id_type
  master :: subdomain_id_type
  slave_to_master_map :: "dof_id_type \<rightharpoonup> dof_id_type"
  current_node :: Node
  sys_number :: nat
  var_number :: nat
  master_var_number :: nat
  formulation :: Formulation
  penalty :: real
  residual_copy :: "dof_id_type \<Rightarrow> real"
  jacobian :: "dof_id_type \<Rightarrow> dof_id_type \<Rightarrow> real"
  constraint_residual :: real
  u_slave :: "real list"
  u_master :: "real list"
  test_slave :: "real list list"
  test_master :: "real list list"
  phi_slave :: "real list list"
  phi_master :: "real list list"
  connected_dof_indices :: "dof_id_type list"
  idx_i :: nat
  idx_j :: nat
  idx_qp :: nat
  Kee :: DenseMatrix
  Kne :: DenseMatrix
  jacobianBlockNeighbor :: "DGJacobianType \<Rightarrow> nat \<Rightarrow> nat \<Rightarrow> DenseMatrix"
  nodalDofIndex :: "nat \<Rightarrow> dof_id_type"
  connected_dofs_of :: "nat \<Rightarrow> dof_id_type list"
  neighbor_phys_at :: "Elem option \<Rightarrow> Point list \<Rightarrow> NeighborPhys"
  locator_queries :: "Node list"
  ghosted_elems :: "dof_id_type list"
  fe_calls :: "fe_call list"
  accumulated :: "(JacobianBlock \<times> nat \<times> nat \<times> real) list"

text \<open>
  The fields after \<open>jacobianBlockNeighbor\<close> are the constraint's surroundings:
  \<open>nodalDofIndex v\<close> is \<^verbatim>\<open>_sys.getVariable(0, v).nodalDofIndex()\<close>, \<open>connected_dofs_of v\<close>
  is what the base class resolves for variable \<open>v\<close>, \<open>neighbor_phys_at\<close> is what the FE
  problem computes on an element at given points; \<open>locator_queries\<close>, \<open>ghosted_elems\<close>,
  \<open>fe_calls\<close> and \<open>accumulated\<close> record, in order, the point-locator queries, the
  ids passed to \<^verbatim>\<open>addGhostedElem\<close>, the calls on the FE problem and the \<^verbatim>\<open>+=\<close> on the
  Jacobian blocks.
\<close>

section \<open>The constraint residual and the per-point residual and Jacobian\<close>

definition reinitConstraint ::
  "EqualValueEmbeddedConstraint \<Rightarrow> error + EqualValueEmbeddedConstraint" where
  "reinitConstraint s =
     (let node = current_node s;
          sys_num = sys_number s;
          dof = dof_number node sys_num (var_number s) 0
      in case formulation s of
           KINEMATIC \<Rightarrow> Inr (s\<lparr>constraint_residual := - residual_copy s dof\<rparr>)
         | PENALTY \<Rightarrow>
             Inr (s\<lparr>constraint_residual := penalty s * (u_slave s ! 0 - u_master s ! 0)\<rparr>)
         | UnknownFormulation _ \<Rightarrow> Inl (MooseError ''Invalid formulation''))"

definition computeQpSlaveValue :: "EqualValueEmbeddedConstraint \<Rightarrow> real" where
  "computeQpSlaveValue s = u_slave s ! idx_qp s"

definition computeQpResidual :: "ConstraintType \<Rightarrow> EqualValueEmbeddedConstraint \<Rightarrow> real" where
  "computeQpResidual type s =
     (let resid = constraint_residual s
      in case type of
           Slave \<Rightarrow>
             (let resid =
                    (if formulation s = KINEMATIC
                     then (let pen_force =
                                 penalty s * (u_slave s ! idx_qp s - u_master s ! idx_qp s)
                           in resid + pen_force)
                     else resid)
              in test_slave s ! idx_i s ! idx_qp s * resid)
         | Master \<Rightarrow> test_master s ! idx_i s ! idx_qp s * - resid
         | OtherConstraintType \<Rightarrow> 0)"

definition computeQpJacobian ::
  "ConstraintJacobianType \<Rightarrow> EqualValueEmbeddedConstraint \<Rightarrow> error + real" where
  "computeQpJacobian type s =
     (let sys_num = sys_number s;
          penalty = penalty s
      in case type of
           SlaveSlave \<Rightarrow>
             (case formulation s of
                KINEMATIC \<Rightarrow>
                  (let curr_jac =
                         jacobian s (dof_number (current_node s) sys_num (var_number s) 0)
                           (connected_dof_indices s ! idx_j s)
                   in Inr (- curr_jac
                           + phi_slave s ! idx_j s ! idx_qp s * penalty
                             * test_slave s ! idx_i s ! idx_qp s))
              | PENALTY \<Rightarrow>
                  Inr (phi_slave s ! idx_j s ! idx_qp s * penalty
                       * test_slave s ! idx_i s ! idx_qp s)
              | UnknownFormulation _ \<Rightarrow> Inl (MooseError ''Invalid formulation''))
         | SlaveMaster \<Rightarrow>
             (case formulation s of
                KINEMATIC \<Rightarrow>
                  Inr (- phi_master s ! idx_j s ! idx_qp s * penalty
                       * test_slave s ! idx_i s ! idx_qp s)
              | PENALTY \<Rightarrow>
                  Inr (- phi_master s ! idx_j s ! idx_qp s * penalty
                       * test_slave s ! idx_i s ! idx_qp s)
              | UnknownFormulation _ \<Rightarrow> Inl (MooseError ''Invalid formulation''))
         | MasterSlave \<Rightarrow>
             (case formulation s of
                KINEMATIC \<Rightarrow>
                  (let slave_jac =
                         jacobian s (dof_number (current_node s) sys_num (var_number s) 0)
                           (connected_dof_indices s ! idx_j s)
                   in Inr (slave_jac * test_master s ! idx_i s ! idx_qp s))
              | PENALTY \<Rightarrow>
                  Inr (- phi_slave s ! idx_j s ! idx_qp s * penalty
                       * test_master s ! idx_i s ! idx_qp s)
              | UnknownFormulation _ \<Rightarrow> Inl (MooseError ''Invalid formulation''))
         | MasterMaster \<Rightarrow>
             (case formulation s of
                KINEMATIC \<Rightarrow> Inr 0
              | PENALTY \<Rightarrow>
                  Inr (test_master s ! idx_i s ! idx_qp s * penalty
                       * phi_master s ! idx_j s ! idx_qp s)
              | UnknownFormulation _ \<Rightarrow> Inl (MooseError ''Invalid formulation''))
         | OtherConstraintJacobianType \<Rightarrow> Inr 0)"

definition computeQpOffDiagJacobian ::
  "ConstraintJacobianType \<Rightarrow> nat \<Rightarrow> EqualValueEmbeddedConstraint \<Rightarrow> error + real" where
  "computeQpOffDiagJacobian type jvar s =
     (let sys_num = sys_number s
      in case type of
           SlaveSlave \<Rightarrow>
             (let curr_jac =
                    jacobian s (dof_number (current_node s) sys_num (var_number s) 0)
                      (connected_dof_indices s ! idx_j s)
              in Inr (- curr_jac))
         | SlaveMaster \<Rightarrow> Inr 0
         | MasterSlave \<Rightarrow>
             (case formulation s of
                KINEMATIC \<Rightarrow>
                  (let slave_jac =
                         jacobian s (dof_number (current_node s) sys_num (var_number s) 0)
                           (connected_dof_indices s ! idx_j s)
                   in Inr (slave_jac * test_master s ! idx_i s ! idx_qp s))
              | PENALTY \<Rightarrow> Inr 0
              | UnknownFormulation _ \<Rightarrow> Inl (MooseError ''Invalid formulation''))
         | MasterMaster \<Rightarrow> Inr 0
         | OtherConstraintJacobianType \<Rightarrow> Inr 0)"

section \<open>Connected degrees of freedom and the slave basis vector\<close>

text \<open>\<^verbatim>\<open>std::vector::resize\<close>: keep the first \<open>k\<close> entries, fill up with the default \<open>d\<close>.\<close>

definition vec_resize :: "nat \<Rightarrow> 'a \<Rightarrow> 'a list \<Rightarrow> 'a list" where
  "vec_resize k d xs = take k xs @ replicate (k - length xs) d"

text \<open>
  Modelled from the spec: \<^verbatim>\<open>NodeElemConstraint::getConnectedDofIndices\<close>, the base-class
  resolution that the source calls and that is not among the source files. The spec
  says it determines, for the variable under assembly, the degrees of freedom coupled to
  the current slave node; the result for variable \<open>var_num\<close> is the parameter
  \<open>connected_dofs_of s var_num\<close>.
\<close>

definition NodeElemConstraint_getConnectedDofIndices ::
  "nat \<Rightarrow> EqualValueEmbeddedConstraint \<Rightarrow> EqualValueEmbeddedConstraint" where
  "NodeElemConstraint_getConnectedDofIndices var_num s =
     s\<lparr>connected_dof_indices := connected_dofs_of s var_num\<rparr>"

text \<open>The loop of \<^verbatim>\<open>getConnectedDofIndices\<close> over its local \<^verbatim>\<open>j\<close>.\<close>

function fill_phi_slave ::
  "nat \<Rightarrow> dof_id_type \<Rightarrow> EqualValueEmbeddedConstraint \<Rightarrow> EqualValueEmbeddedConstraint" where
  "fill_phi_slave j current_node_var_dof_index s =
     (if j < length (connected_dof_indices s)
      then (let s1 = s\<lparr>phi_slave := (phi_slave s)[j := vec_resize 1 0 (phi_slave s ! j)]\<rparr>;
                s2 = (if connected_dof_indices s1 ! j = current_node_var_dof_index
                      then s1\<lparr>phi_slave :=
                                (phi_slave s1)[j := (phi_slave s1 ! j)[idx_qp s1 := 1]]\<rparr>
                      else s1\<lparr>phi_slave :=
                                (phi_slave s1)[j := (phi_slave s1 ! j)[idx_qp s1 := 0]]\<rparr>)
            in fill_phi_slave (j + 1) current_node_var_dof_index s2)
      else s)"
  by pat_completeness auto
termination
  by (relation "measure (\<lambda>(j, d, s). length (connected_dof_indices s) - j)") auto

declare fill_phi_slave.simps [simp del]

definition getConnectedDofIndices ::
  "nat \<Rightarrow> EqualValueEmbeddedConstraint \<Rightarrow> EqualValueEmbeddedConstraint" where
  "getConnectedDofIndices var_num s =
     (let s1 = NodeElemConstraint_getConnectedDofIndices var_num s;
          s2 = s1\<lparr>phi_slave := vec_resize (length (connected_dof_indices s1)) [] (phi_slave s1)\<rparr>;
          current_node_var_dof_index = nodalDofIndex s2 var_num;
          s3 = s2\<lparr>idx_qp := 0\<rparr>
      in fill_phi_slave 0 current_node_var_dof_index s3)"

section \<open>Block assembly\<close>

definition dm_zero :: "DenseMatrix \<Rightarrow> DenseMatrix" where
  "dm_zero A = A\<lparr>dm_val := replicate (length (dm_val A)) 0\<rparr>"

text \<open>\<^verbatim>\<open>DenseMatrix::resize\<close> sets the dimensions and zeroes every entry.\<close>

definition dm_resize :: "nat \<Rightarrow> nat \<Rightarrow> DenseMatrix \<Rightarrow> DenseMatrix" where
  "dm_resize new_m new_n A =
     dm_zero (A\<lparr>dm_val := vec_resize (new_m * new_n) 0 (dm_val A), dm_m := new_m, dm_n := new_n\<rparr>)"

definition dm_get :: "DenseMatrix \<Rightarrow> nat \<Rightarrow> nat \<Rightarrow> real" where
  "dm_get A i j = dm_val A ! (i * dm_n A + j)"

definition dm_add :: "DenseMatrix \<Rightarrow> nat \<Rightarrow> nat \<Rightarrow> real \<Rightarrow> DenseMatrix" where
  "dm_add A i j v = A\<lparr>dm_val := (dm_val A)[i * dm_n A + j := dm_val A ! (i * dm_n A + j) + v]\<rparr>"

definition get_block :: "JacobianBlock \<Rightarrow> EqualValueEmbeddedConstraint \<Rightarrow> DenseMatrix" where
  "get_block blk s =
     (case blk of
        KeeBlock \<Rightarrow> Kee s
      | KneBlock \<Rightarrow> Kne s
      | NeighborBlock t ivar jvar \<Rightarrow> jacobianBlockNeighbor s t ivar jvar)"

definition set_block ::
  "JacobianBlock \<Rightarrow> DenseMatrix \<Rightarrow> EqualValueEmbeddedConstraint \<Rightarrow> EqualValueEmbeddedConstraint" where
  "set_block blk A s =
     (case blk of
        KeeBlock \<Rightarrow> s\<lparr>Kee := A\<rparr>
      | KneBlock \<Rightarrow> s\<lparr>Kne := A\<rparr>
      | NeighborBlock t ivar jvar \<Rightarrow>
          s\<lparr>jacobianBlockNeighbor :=
               (jacobianBlockNeighbor s)
                 (t := (jacobianBlockNeighbor s t)
                         (ivar := (jacobianBlockNeighbor s t ivar)(jvar := A)))\<rparr>)"

text \<open>
  One \<^verbatim>\<open>K(_i, _j) += q\<close>: the value is computed first (it may abort), then added to
  the block's entry, and the addition is recorded.
\<close>

definition add_to_block ::
  "JacobianBlock \<Rightarrow> (EqualValueEmbeddedConstraint \<Rightarrow> error + real) \<Rightarrow>
   EqualValueEmbeddedConstraint \<Rightarrow> error + EqualValueEmbeddedConstraint" where
  "add_to_block blk q s =
     (case q s of
        Inl e \<Rightarrow> Inl e
      | Inr v \<Rightarrow>
          Inr ((set_block blk (dm_add (get_block blk s) (idx_i s) (idx_j s) v) s)
                 \<lparr>accumulated := accumulated s @ [(blk, idx_i s, idx_j s, v)]\<rparr>))"

definition set_i :: "nat \<Rightarrow> EqualValueEmbeddedConstraint \<Rightarrow> EqualValueEmbeddedConstraint" where
  "set_i k s = s\<lparr>idx_i := k\<rparr>"

definition set_j :: "nat \<Rightarrow> EqualValueEmbeddedConstraint \<Rightarrow> EqualValueEmbeddedConstraint" where
  "set_j k s = s\<lparr>idx_j := k\<rparr>"

text \<open>
  \<^verbatim>\<open>for (_k = 0; _k < bound; _k++) body\<close> on a member index \<^verbatim>\<open>_k\<close>: the body runs with
  \<^verbatim>\<open>_k\<close> set to \<open>0, 1, ..., bound - 1\<close> and the loop leaves \<^verbatim>\<open>_k = bound\<close>; an abort in the
  body ends the loop. The bounds of the source are sizes that no loop body changes.
\<close>

fun for_each ::
  "(nat \<Rightarrow> 's \<Rightarrow> 's) \<Rightarrow> nat list \<Rightarrow> ('s \<Rightarrow> error + 's) \<Rightarrow> 's \<Rightarrow> error + 's" where
  "for_each set_idx [] body s = Inr s"
| "for_each set_idx (k # ks) body s =
     (case body (set_idx k s) of
        Inl e \<Rightarrow> Inl e
      | Inr s' \<Rightarrow> for_each set_idx ks body s')"

definition for_loop ::
  "(nat \<Rightarrow> 's \<Rightarrow> 's) \<Rightarrow> nat \<Rightarrow> ('s \<Rightarrow> error + 's) \<Rightarrow> 's \<Rightarrow> error + 's" where
  "for_loop set_idx bound body s =
     (case for_each set_idx [0..<bound] body s of
        Inl e \<Rightarrow> Inl e
      | Inr s' \<Rightarrow> Inr (set_idx bound s'))"

definition computeJacobian ::
  "EqualValueEmbeddedConstraint \<Rightarrow> error + EqualValueEmbeddedConstraint" where
  "computeJacobian s0 =
     (let s1 = getConnectedDofIndices (var_number s0) s0;
          Knn = NeighborBlock NeighborNeighbor (master_var_number s1) (var_number s1);
          s2 = s1\<lparr>Kee := dm_resize (length (test_slave s1)) (length (connected_dof_indices s1))
                              (Kee s1)\<rparr>
      in case for_loop set_i (length (test_slave s2))
                (\<lambda>s. for_loop set_j (length (connected_dof_indices s))
                        (add_to_block KeeBlock (computeQpJacobian SlaveSlave)) s) s2 of
           Inl e \<Rightarrow> Inl e
         | Inr s3 \<Rightarrow>
             (let Ken = NeighborBlock ElementNeighbor (var_number s3) (var_number s3)
              in case (if dm_m (get_block Ken s3) \<noteq> 0 \<and> dm_n (get_block Ken s3) \<noteq> 0
                       then for_loop set_i (length (test_slave s3))
                              (\<lambda>s. for_loop set_j (length (phi_master s))
                                      (add_to_block Ken (computeQpJacobian SlaveMaster)) s) s3
                       else Inr s3) of
                   Inl e \<Rightarrow> Inl e
                 | Inr s4 \<Rightarrow>
                     (let s5 = s4\<lparr>Kne := dm_resize (length (test_master s4))
                                             (length (connected_dof_indices s4)) (Kne s4)\<rparr>
                      in case for_loop set_i (length (test_master s5))
                                (\<lambda>s. for_loop set_j (length (connected_dof_indices s))
                                        (add_to_block KneBlock (computeQpJacobian MasterSlave)) s)
                                s5 of
                           Inl e \<Rightarrow> Inl e
                         | Inr s6 \<Rightarrow>
                             (if dm_m (get_block Knn s6) \<noteq> 0 \<and> dm_n (get_block Knn s6) \<noteq> 0
                              then for_loop set_i (length (test_master s6))
                                     (\<lambda>s. for_loop set_j (length (phi_master s))
                                             (add_to_block Knn (computeQpJacobian MasterMaster))
                                             s) s6
                              else Inr s6))))"

definition computeOffDiagJacobian ::
  "nat \<Rightarrow> EqualValueEmbeddedConstraint \<Rightarrow> error + EqualValueEmbeddedConstraint" where
  "computeOffDiagJacobian jvar s0 =
     (let s1 = getConnectedDofIndices jvar s0;
          s2 = s1\<lparr>Kee := dm_resize (length (test_slave s1)) (length (connected_dof_indices s1))
                              (Kee s1)\<rparr>;
          Knn = NeighborBlock NeighborNeighbor (master_var_number s2) jvar
      in case for_loop set_i (length (test_slave s2))
                (\<lambda>s. for_loop set_j (length (connected_dof_indices s))
                        (add_to_block KeeBlock (computeQpOffDiagJacobian SlaveSlave jvar)) s)
                s2 of
           Inl e \<Rightarrow> Inl e
         | Inr s3 \<Rightarrow>
             (let Ken = NeighborBlock ElementNeighbor (var_number s3) jvar
              in case for_loop set_i (length (test_slave s3))
                        (\<lambda>s. for_loop set_j (length (phi_master s))
                                (add_to_block Ken (computeQpOffDiagJacobian SlaveMaster jvar)) s)
                        s3 of
                   Inl e \<Rightarrow> Inl e
                 | Inr s4 \<Rightarrow>
                     (let s5 = s4\<lparr>Kne := dm_resize (length (test_master s4))
                                             (length (connected_dof_indices s4)) (Kne s4)\<rparr>
                      in case (if dm_m (Kne s5) \<noteq> 0 \<and> dm_n (Kne s5) \<noteq> 0
                               then for_loop set_i (length (test_master s5))
                                      (\<lambda>s. for_loop set_j (length (connected_dof_indices s))
                                              (add_to_block KneBlock
                                                 (computeQpOffDiagJacobian MasterSlave jvar)) s)
                                      s5
                               else Inr s5) of
                           Inl e \<Rightarrow> Inl e
                         | Inr s6 \<Rightarrow>
                             for_loop set_i (length (test_master s6))
                               (\<lambda>s. for_loop set_j (length (phi_master s))
                                       (add_to_block Knn
                                          (computeQpOffDiagJacobian MasterMaster jvar)) s)
                               s6)))"

section \<open>The slave-to-master map and the activation gate\<close>

definition active_subdomain_elements :: "MooseMesh \<Rightarrow> subdomain_id_type \<Rightarrow> Elem list" where
  "active_subdomain_elements msh sd =
     filter (\<lambda>e. active e \<and> subdomain_id e = sd) (elements msh)"

definition elemPtr :: "MooseMesh \<Rightarrow> dof_id_type \<Rightarrow> Elem option" where
  "elemPtr msh eid = find (\<lambda>e. elem_id e = eid) (elements msh)"

definition addGhostedElem ::
  "dof_id_type \<Rightarrow> EqualValueEmbeddedConstraint \<Rightarrow> EqualValueEmbeddedConstraint" where
  "addGhostedElem mid s = s\<lparr>ghosted_elems := ghosted_elems s @ [mid]\<rparr>"

text \<open>The body of the inner loop of \<^verbatim>\<open>prepareSlaveToMasterMap\<close>, for the node \<open>sn\<close>.\<close>

definition visit_slave_node ::
  "Node \<Rightarrow> EqualValueEmbeddedConstraint \<Rightarrow> EqualValueEmbeddedConstraint" where
  "visit_slave_node sn s =
     (let allowed_subdomains = {master s};
          sid = node_id sn
      in if slave_to_master_map s sid = None
         then (let me = pointLocator (mesh s) (node_point sn) allowed_subdomains;
                   s1 = s\<lparr>locator_queries := locator_queries s @ [sn]\<rparr>
               in case me of
                    Some e \<Rightarrow>
                      (let mid = elem_id e
                       in addGhostedElem mid
                            (s1\<lparr>slave_to_master_map := (slave_to_master_map s1)(sid \<mapsto> mid)\<rparr>))
                  | None \<Rightarrow> s1)
         else s)"

fun node_loop ::
  "Node list \<Rightarrow> EqualValueEmbeddedConstraint \<Rightarrow> EqualValueEmbeddedConstraint" where
  "node_loop [] s = s"
| "node_loop (sn # sns) s = node_loop sns (visit_slave_node sn s)"

fun elem_loop ::
  "Elem list \<Rightarrow> EqualValueEmbeddedConstraint \<Rightarrow> EqualValueEmbeddedConstraint" where
  "elem_loop [] s = s"
| "elem_loop (elem # elems) s = elem_loop elems (node_loop (node_ref_range elem) s)"

definition prepareSlaveToMasterMap ::
  "EqualValueEmbeddedConstraint \<Rightarrow> EqualValueEmbeddedConstraint" where
  "prepareSlaveToMasterMap s = elem_loop (active_subdomain_elements (mesh s) (slave s)) s"

text \<open>
  The two calls \<^verbatim>\<open>shouldApply\<close> makes on the FE problem. Each is recorded with its
  arguments; \<^verbatim>\<open>reinitNeighborPhys\<close> also leaves the master-side values and shape
  functions of the element at the given points in \<open>u_master\<close>, \<open>phi_master\<close> and
  \<open>test_master\<close>.
\<close>

definition setNeighborSubdomainID ::
  "Elem option \<Rightarrow> nat \<Rightarrow> EqualValueEmbeddedConstraint \<Rightarrow> EqualValueEmbeddedConstraint" where
  "setNeighborSubdomainID elem tid s =
     s\<lparr>fe_calls := fe_calls s @ [SetNeighborSubdomainID elem tid]\<rparr>"

definition reinitNeighborPhys ::
  "Elem option \<Rightarrow> Point list \<Rightarrow> nat \<Rightarrow> EqualValueEmbeddedConstraint \<Rightarrow>
   EqualValueEmbeddedConstraint" where
  "reinitNeighborPhys elem points tid s =
     s\<lparr>u_master := np_u_master (neighbor_phys_at s elem points),
       phi_master := np_phi_master (neighbor_phys_at s elem points),
       test_master := np_test_master (neighbor_phys_at s elem points),
       fe_calls := fe_calls s @ [ReinitNeighborPhys elem points tid]\<rparr>"

definition shouldApply ::
  "EqualValueEmbeddedConstraint \<Rightarrow> error + bool \<times> EqualValueEmbeddedConstraint" where
  "shouldApply s =
     (case slave_to_master_map s (node_id (current_node s)) of
        Some mid \<Rightarrow>
          (let master_elem = elemPtr (mesh s) mid;
               points = [node_point (current_node s)];
               s1 = setNeighborSubdomainID master_elem 0 s;
               s2 = reinitNeighborPhys master_elem points 0 s1
           in case reinitConstraint s2 of
                Inl e \<Rightarrow> Inl e
              | Inr s3 \<Rightarrow> Inr (True, s3))
      | None \<Rightarrow> Inr (False, s))"

text \<open>
  For the statements: the element the locator returns for a node under the constraint's
  master subdomain, and the nodes \<^verbatim>\<open>prepareSlaveToMasterMap\<close> visits, in order (the nodes
  of each active element of the slave subdomain; a shared node occurs once per element).
\<close>

definition locate_master :: "EqualValueEmbeddedConstraint \<Rightarrow> Node \<Rightarrow> Elem option" where
  "locate_master s sn = pointLocator (mesh s) (node_point sn) {master s}"

definition slave_nodes :: "EqualValueEmbeddedConstraint \<Rightarrow> Node list" where
  "slave_nodes s = concat (map node_ref_range (active_subdomain_elements (mesh s) (slave s)))"

section \<open>Notions for the block assembly\<close>

text \<open>
  The value \<^verbatim>\<open>computeQpJacobian(type)\<close> returns with \<^verbatim>\<open>_i = i\<close> and \<^verbatim>\<open>_j = j\<close>, and the same
  for \<^verbatim>\<open>computeQpOffDiagJacobian(type, jvar)\<close>; under one of the two formulations the call
  does return it (lemmas \<open>computeQpJacobian_value\<close> and \<open>computeQpOffDiagJacobian_value\<close>
  below).
\<close>

definition qp_jacobian_value ::
  "ConstraintJacobianType \<Rightarrow> EqualValueEmbeddedConstraint \<Rightarrow> nat \<Rightarrow> nat \<Rightarrow> real" where
  "qp_jacobian_value t s i j =
     (case computeQpJacobian t (s\<lparr>idx_i := i, idx_j := j\<rparr>) of Inl e \<Rightarrow> 0 | Inr v \<Rightarrow> v)"

definition qp_offdiag_value ::
  "ConstraintJacobianType \<Rightarrow> nat \<Rightarrow> EqualValueEmbeddedConstraint \<Rightarrow> nat \<Rightarrow> nat \<Rightarrow> real" where
  "qp_offdiag_value t jvar s i j =
     (case computeQpOffDiagJacobian t jvar (s\<lparr>idx_i := i, idx_j := j\<rparr>) of
        Inl e \<Rightarrow> 0 | Inr v \<Rightarrow> v)"

text \<open>
  The \<^verbatim>\<open>+=\<close> of one double loop over a block, in the order the loops make them: for
  \<open>i = 0, ..., M - 1\<close> and, inside, \<open>j = 0, ..., N - 1\<close>, the value \<open>v i j\<close> is added to
  entry \<open>(i, j)\<close> of the block.
\<close>

definition additions ::
  "JacobianBlock \<Rightarrow> nat \<Rightarrow> nat \<Rightarrow> (nat \<Rightarrow> nat \<Rightarrow> real) \<Rightarrow> (JacobianBlock \<times> nat \<times> nat \<times> real) list" where
  "additions blk M N v = concat (map (\<lambda>i. map (\<lambda>j. (blk, i, j, v i j)) [0..<N]) [0..<M])"

text \<open>A list of recorded additions replayed on the block \<open>blk\<close>.\<close>

definition apply_additions ::
  "(JacobianBlock \<times> nat \<times> nat \<times> real) list \<Rightarrow> JacobianBlock \<Rightarrow> DenseMatrix \<Rightarrow> DenseMatrix" where
  "apply_additions adds blk A =
     fold (\<lambda>(b, i, j, v) A. if b = blk then dm_add A i j v else A) adds A"

text \<open>
  For the proofs: the state inside a double loop over block \<open>blk\<close>, and the relation of
  two states that agree on everything \<^verbatim>\<open>computeQpJacobian\<close> and
  \<^verbatim>\<open>computeQpOffDiagJacobian\<close> read but the two indices.
\<close>

definition loop_state ::
  "JacobianBlock \<Rightarrow> DenseMatrix \<Rightarrow> (JacobianBlock \<times> nat \<times> nat \<times> real) list \<Rightarrow> nat \<Rightarrow> nat \<Rightarrow>
   EqualValueEmbeddedConstraint \<Rightarrow> EqualValueEmbeddedConstraint" where
  "loop_state blk A L a b s = (set_block blk A s)\<lparr>accumulated := L, idx_i := a, idx_j := b\<rparr>"

definition same_inputs ::
  "EqualValueEmbeddedConstraint \<Rightarrow> EqualValueEmbeddedConstraint \<Rightarrow> bool" where
  "same_inputs s s' \<longleftrightarrow>
     formulation s' = formulation s \<and> penalty s' = penalty s \<and> jacobian s' = jacobian s
     \<and> current_node s' = current_node s \<and> sys_number s' = sys_number s
     \<and> var_number s' = var_number s \<and> master_var_number s' = master_var_number s
     \<and> connected_dof_indices s' = connected_dof_indices s \<and> phi_slave s' = phi_slave s
     \<and> phi_master s' = phi_master s \<and> test_slave s' = test_slave s
     \<and> test_master s' = test_master s \<and> idx_qp s' = idx_qp s"

section \<open>A small configuration\<close>

text \<open>
  Two slave elements (subdomain 1) sharing node 6, and one master element (subdomain 2)
  that contains the point of node 6 only. The constraint uses the penalty formulation
  with penalty 10, slave value 2 and master value 1.
\<close>

definition example_node :: Node where
  "example_node = \<lparr>node_id = 6, node_point = (1, 0, 0), dof_number = (\<lambda>sys var comp. 4)\<rparr>"

definition example_master_elem :: Elem where
  "example_master_elem =
     \<lparr>elem_id = 10, subdomain_id = 2, active = True,
      node_ref_range =
        [\<lparr>node_id = 20, node_point = (1/2, 0, 0), dof_number = (\<lambda>sys var comp. 3)\<rparr>,
         \<lparr>node_id = 21, node_point = (3/2, 0, 0), dof_number = (\<lambda>sys var comp. 8)\<rparr>]\<rparr>"

definition example_mesh :: MooseMesh where
  "example_mesh =
     \<lparr>elements =
        [\<lparr>elem_id = 1, subdomain_id = 1, active = True,
          node_ref_range =
            [\<lparr>node_id = 5, node_point = (0, 0, 0), dof_number = (\<lambda>sys var comp. 2)\<rparr>,
             example_node]\<rparr>,
         \<lparr>elem_id = 2, subdomain_id = 1, active = True,
          node_ref_range =
            [example_node,
             \<lparr>node_id = 7, node_point = (2, 0, 0), dof_number = (\<lambda>sys var comp. 9)\<rparr>]\<rparr>,
         example_master_elem],
      pointLocator =
        (\<lambda>p allowed. if p = (1, 0, 0) \<and> 2 \<in> allowed then Some example_master_elem else None)\<rparr>"

definition example_constraint :: EqualValueEmbeddedConstraint where
  "example_constraint =
     \<lparr>mesh = example_mesh, slave = 1, master = 2, slave_to_master_map = Map.empty,
      current_node = example_node, sys_number = 0, var_number = 0, master_var_number = 0,
      formulation = PENALTY, penalty = 10,
      residual_copy = (\<lambda>d. real d), jacobian = (\<lambda>r c. real (r + 2 * c)),
      constraint_residual = 0,
      u_slave = [2], u_master = [1],
      test_slave = [[1]], test_master = [[1/2], [1/2]],
      phi_slave = [], phi_master = [[1/2], [1/2]],
      connected_dof_indices = [],
      idx_i = 0, idx_j = 0, idx_qp = 0,
      Kee = \<lparr>dm_m = 0, dm_n = 0, dm_val = []\<rparr>,
      Kne = \<lparr>dm_m = 0, dm_n = 0, dm_val = []\<rparr>,
      jacobianBlockNeighbor = (\<lambda>t ivar jvar. \<lparr>dm_m = 0, dm_n = 0, dm_val = []\<rparr>),
      nodalDofIndex = (\<lambda>v. 4), connected_dofs_of = (\<lambda>v. [3, 4, 8]),
      neighbor_phys_at =
        (\<lambda>e ps. \<lparr>np_u_master = [1], np_phi_master = [[1/2], [1/2]],
                 np_test_master = [[1/2], [1/2]]\<rparr>),
      locator_queries = [], ghosted_elems = [], fe_calls = [], accumulated = []\<rparr>"

text \<open>The same after the connected dofs \<open>[3, 4, 8]\<close> of node 6 (dof 4) are resolved.\<close>

definition example_assembled :: EqualValueEmbeddedConstraint where
  "example_assembled =
     example_constraint\<lparr>connected_dof_indices := [3, 4, 8], phi_slave := [[0], [1], [0]]\<rparr>"

text \<open>
  The same configuration with every neighbor block a 2 by 2 matrix of ones, and with no
  master test function.
\<close>

definition example_blocks :: EqualValueEmbeddedConstraint where
  "example_blocks =
     example_constraint
       \<lparr>jacobianBlockNeighbor :=
          (\<lambda>t ivar jvar. \<lparr>dm_m = 2, dm_n = 2, dm_val = [1, 1, 1, 1]\<rparr>)\<rparr>"

definition example_no_master :: EqualValueEmbeddedConstraint where
  "example_no_master = example_constraint\<lparr>test_master := []\<rparr>"

section \<open>The constraint residual scalar\<close>

text \<open>
  C1: \<^verbatim>\<open>reinitConstraint\<close> recomputes the constraint residual from the current inputs.
  Under the kinematic formulation it is the negated entry of the ghosted residual at the
  slave node's dof of the constrained variable; under the penalty formulation it is
  penalty times (slave value minus master value) at the evaluation point. Nothing is
  cached: after the ghosted residual is replaced by \<open>r'\<close>, a second activation gives the
  negated entry of \<open>r'\<close>, so the result changes by the negated change of the entry.
\<close>

theorem C1_reinitConstraint:
  "(formulation s = KINEMATIC \<longrightarrow>
      reinitConstraint s =
        Inr (s\<lparr>constraint_residual :=
                 - residual_copy s (dof_number (current_node s) (sys_number s) (var_number s) 0)\<rparr>))
   \<and> (formulation s = PENALTY \<longrightarrow>
      reinitConstraint s =
        Inr (s\<lparr>constraint_residual := penalty s * (u_slave s ! 0 - u_master s ! 0)\<rparr>))
   \<and> (formulation s = KINEMATIC \<longrightarrow>
      (case reinitConstraint s of
         Inl e \<Rightarrow> False
       | Inr s1 \<Rightarrow>
           (case reinitConstraint (s1\<lparr>residual_copy := r'\<rparr>) of
              Inl e \<Rightarrow> False
            | Inr s2 \<Rightarrow>
                constraint_residual s2
                  = - r' (dof_number (current_node s) (sys_number s) (var_number s) 0)
                \<and> constraint_residual s2 - constraint_residual s1
                  = - (r' (dof_number (current_node s) (sys_number s) (var_number s) 0)
                       - residual_copy s
                           (dof_number (current_node s) (sys_number s) (var_number s) 0)))))"
  by (simp add: reinitConstraint_def)

theorem C1_reinitConstraint_witness:
  "reinitConstraint example_constraint = Inr (example_constraint\<lparr>constraint_residual := 10\<rparr>)
   \<and> reinitConstraint (example_constraint\<lparr>formulation := KINEMATIC\<rparr>)
       = Inr (example_constraint\<lparr>formulation := KINEMATIC, constraint_residual := - 4\<rparr>)
   \<and> (case reinitConstraint (example_constraint\<lparr>formulation := KINEMATIC\<rparr>) of
         Inl e \<Rightarrow> False
       | Inr s1 \<Rightarrow>
           (case reinitConstraint (s1\<lparr>residual_copy := (\<lambda>d. 7)\<rparr>) of
              Inl e \<Rightarrow> False
            | Inr s2 \<Rightarrow> constraint_residual s2 = - 7
                \<and> constraint_residual s2 - constraint_residual s1 = - 3))"
  using C1_reinitConstraint [of example_constraint "\<lambda>d. 7"]
        C1_reinitConstraint [of "example_constraint\<lparr>formulation := KINEMATIC\<rparr>" "\<lambda>d. 7"]
  by (simp add: example_constraint_def example_node_def reinitConstraint_def)


section \<open>The per-point residual\<close>

text \<open>
  With the penalty formulation, penalty 10, slave value 2 and master value 1 the
  constraint residual is 10 and the slave-side residual is test_slave times 10: the
  penalty term is added a second time under the kinematic formulation only, so the
  slave contribution is not test_slave times 20.
\<close>

theorem C2_computeQpResidual_counterexample:
  "formulation example_constraint = PENALTY \<and> penalty example_constraint = 10
   \<and> u_slave example_constraint ! 0 = 2 \<and> u_master example_constraint ! 0 = 1
   \<and> (case reinitConstraint example_constraint of
         Inl e \<Rightarrow> False
       | Inr s \<Rightarrow>
           constraint_residual s = 10
           \<and> test_slave s ! idx_i s ! idx_qp s = 1
           \<and> computeQpResidual Slave s = 10
           \<and> computeQpResidual Slave s \<noteq> test_slave s ! idx_i s ! idx_qp s * 20)"
  by (simp add: example_constraint_def reinitConstraint_def computeQpResidual_def)

text \<open>
  C2 (amended): the slave-side residual of \<^verbatim>\<open>computeQpResidual\<close> is test_slave times
  (constraint residual plus, under the kinematic formulation only, penalty times (slave
  value minus master value)); the master-side residual is test_master times the negated
  constraint residual. With the penalty formulation, penalty 10, slave value 2 and master
  value 1 the constraint residual is 10, the slave contribution is test_slave times 10
  and the master contribution is test_master times (-10).
\<close>

theorem C2_computeQpResidual:
  "computeQpResidual Slave s
     = test_slave s ! idx_i s ! idx_qp s
       * (constraint_residual s
          + (if formulation s = KINEMATIC
             then penalty s * (u_slave s ! idx_qp s - u_master s ! idx_qp s) else 0))
   \<and> computeQpResidual Master s
     = test_master s ! idx_i s ! idx_qp s * (- constraint_residual s)
   \<and> (formulation s = PENALTY \<and> penalty s = 10 \<and> u_slave s ! 0 = 2 \<and> u_master s ! 0 = 1
        \<longrightarrow>
        (case reinitConstraint s of
           Inl e \<Rightarrow> False
         | Inr s' \<Rightarrow>
             constraint_residual s' = 10
             \<and> computeQpResidual Slave s' = test_slave s' ! idx_i s' ! idx_qp s' * 10
             \<and> computeQpResidual Master s' = test_master s' ! idx_i s' ! idx_qp s' * (- 10)))"
  by (simp add: computeQpResidual_def reinitConstraint_def)

theorem C2_computeQpResidual_witness:
  "computeQpResidual Slave (example_constraint\<lparr>constraint_residual := 10\<rparr>) = 1 * (10 + 0)
   \<and> computeQpResidual Master (example_constraint\<lparr>constraint_residual := 10\<rparr>)
       = 1 / 2 * (- 10)
   \<and> computeQpResidual Slave
        (example_constraint\<lparr>formulation := KINEMATIC, constraint_residual := - 4\<rparr>)
       = 1 * (- 4 + 10 * (2 - 1))
   \<and> (case reinitConstraint example_constraint of
         Inl e \<Rightarrow> False
       | Inr s' \<Rightarrow>
           constraint_residual s' = 10
           \<and> computeQpResidual Slave s' = 1 * 10
           \<and> computeQpResidual Master s' = 1 / 2 * (- 10))"
  using C2_computeQpResidual [of "example_constraint\<lparr>constraint_residual := 10\<rparr>"]
        C2_computeQpResidual
          [of "example_constraint\<lparr>formulation := KINEMATIC, constraint_residual := - 4\<rparr>"]
        C2_computeQpResidual [of example_constraint]
  by (simp add: example_constraint_def reinitConstraint_def computeQpResidual_def)

section \<open>The per-point Jacobian\<close>

text \<open>
  C3: \<^verbatim>\<open>computeQpJacobian\<close> returns the table of the four blocks. With \<open>J\<close> the entry
  of the system Jacobian at (slave node dof, connected dof): slave-slave is
  \<open>- J + phi_slave * penalty * test_slave\<close> (kinematic) or \<open>phi_slave * penalty * test_slave\<close>
  (penalty); slave-master is \<open>- phi_master * penalty * test_slave\<close> in both; master-slave
  is \<open>J * test_master\<close> (kinematic) or \<open>- phi_slave * penalty * test_master\<close> (penalty);
  master-master is 0 (kinematic, whatever the inputs) or
  \<open>test_master * penalty * phi_master\<close> (penalty).
\<close>

theorem C3_computeQpJacobian:
  "(formulation s = KINEMATIC \<longrightarrow>
      computeQpJacobian SlaveSlave s
        = Inr (- jacobian s (dof_number (current_node s) (sys_number s) (var_number s) 0)
                   (connected_dof_indices s ! idx_j s)
               + phi_slave s ! idx_j s ! idx_qp s * penalty s * test_slave s ! idx_i s ! idx_qp s)
      \<and> computeQpJacobian SlaveMaster s
        = Inr (- (phi_master s ! idx_j s ! idx_qp s * penalty s
                  * test_slave s ! idx_i s ! idx_qp s))
      \<and> computeQpJacobian MasterSlave s
        = Inr (jacobian s (dof_number (current_node s) (sys_number s) (var_number s) 0)
                 (connected_dof_indices s ! idx_j s)
               * test_master s ! idx_i s ! idx_qp s)
      \<and> computeQpJacobian MasterMaster s = Inr 0)
   \<and> (formulation s = PENALTY \<longrightarrow>
      computeQpJacobian SlaveSlave s
        = Inr (phi_slave s ! idx_j s ! idx_qp s * penalty s * test_slave s ! idx_i s ! idx_qp s)
      \<and> computeQpJacobian SlaveMaster s
        = Inr (- (phi_master s ! idx_j s ! idx_qp s * penalty s
                  * test_slave s ! idx_i s ! idx_qp s))
      \<and> computeQpJacobian MasterSlave s
        = Inr (- (phi_slave s ! idx_j s ! idx_qp s * penalty s
                  * test_master s ! idx_i s ! idx_qp s))
      \<and> computeQpJacobian MasterMaster s
        = Inr (test_master s ! idx_i s ! idx_qp s * penalty s
               * phi_master s ! idx_j s ! idx_qp s))"
  by (simp add: computeQpJacobian_def)

theorem C3_computeQpJacobian_witness:
  "computeQpJacobian SlaveSlave (example_assembled\<lparr>formulation := KINEMATIC\<rparr>) = Inr (- 10 + 0)
   \<and> computeQpJacobian SlaveMaster (example_assembled\<lparr>formulation := KINEMATIC\<rparr>) = Inr (- 5)
   \<and> computeQpJacobian MasterSlave (example_assembled\<lparr>formulation := KINEMATIC\<rparr>) = Inr 5
   \<and> computeQpJacobian MasterMaster (example_assembled\<lparr>formulation := KINEMATIC\<rparr>) = Inr 0
   \<and> computeQpJacobian SlaveSlave (example_assembled\<lparr>idx_j := 1\<rparr>) = Inr 10
   \<and> computeQpJacobian SlaveMaster example_assembled = Inr (- 5)
   \<and> computeQpJacobian MasterSlave (example_assembled\<lparr>idx_j := 1\<rparr>) = Inr (- 5)
   \<and> computeQpJacobian MasterMaster example_assembled = Inr (5 / 2)"
  using C3_computeQpJacobian [of "example_assembled\<lparr>formulation := KINEMATIC\<rparr>"]
        C3_computeQpJacobian [of "example_assembled\<lparr>idx_j := 1\<rparr>"]
        C3_computeQpJacobian [of example_assembled]
  by (simp add: example_assembled_def example_constraint_def example_node_def
        computeQpJacobian_def)

text \<open>
  C4: for another variable \<open>jvar\<close>, \<^verbatim>\<open>computeQpOffDiagJacobian\<close> returns 0 for the
  slave-master and the master-master block and \<open>- J\<close>, without a penalty term, for the
  slave-slave block, whatever the formulation; for the master-slave block it returns
  \<open>J * test_master\<close> under the kinematic formulation and 0 under the penalty formulation.
\<close>

theorem C4_computeQpOffDiagJacobian:
  "computeQpOffDiagJacobian SlaveMaster jvar s = Inr 0
   \<and> computeQpOffDiagJacobian MasterMaster jvar s = Inr 0
   \<and> computeQpOffDiagJacobian SlaveSlave jvar s
       = Inr (- jacobian s (dof_number (current_node s) (sys_number s) (var_number s) 0)
                  (connected_dof_indices s ! idx_j s))
   \<and> (formulation s = KINEMATIC \<longrightarrow>
        computeQpOffDiagJacobian MasterSlave jvar s
          = Inr (jacobian s (dof_number (current_node s) (sys_number s) (var_number s) 0)
                   (connected_dof_indices s ! idx_j s)
                 * test_master s ! idx_i s ! idx_qp s))
   \<and> (formulation s = PENALTY \<longrightarrow> computeQpOffDiagJacobian MasterSlave jvar s = Inr 0)"
  by (simp add: computeQpOffDiagJacobian_def)

theorem C4_computeQpOffDiagJacobian_witness:
  "computeQpOffDiagJacobian SlaveMaster 1 example_assembled = Inr 0
   \<and> computeQpOffDiagJacobian MasterMaster 1 example_assembled = Inr 0
   \<and> computeQpOffDiagJacobian SlaveSlave 1 example_assembled = Inr (- 10)
   \<and> computeQpOffDiagJacobian MasterSlave 1 (example_assembled\<lparr>formulation := KINEMATIC\<rparr>)
       = Inr (10 * (1 / 2))
   \<and> computeQpOffDiagJacobian MasterSlave 1 example_assembled = Inr 0"
  using C4_computeQpOffDiagJacobian [of 1 example_assembled]
        C4_computeQpOffDiagJacobian [of 1 "example_assembled\<lparr>formulation := KINEMATIC\<rparr>"]
  by (simp add: example_assembled_def example_constraint_def example_node_def
        computeQpOffDiagJacobian_def)

section \<open>An unrecognized formulation\<close>

text \<open>
  With a formulation that is neither kinematic nor penalty, \<^verbatim>\<open>computeQpResidual\<close> and
  three of the four blocks of \<^verbatim>\<open>computeQpOffDiagJacobian\<close> return a value: they contain
  no switch on the formulation (\<^verbatim>\<open>computeQpResidual\<close> only tests whether it is
  kinematic). So not every residual or Jacobian path aborts.
\<close>

theorem C5_invalid_formulation_counterexample:
  "formulation (example_assembled\<lparr>formulation := UnknownFormulation 2,
                                   constraint_residual := 10\<rparr>) \<noteq> KINEMATIC
   \<and> formulation (example_assembled\<lparr>formulation := UnknownFormulation 2,
                                     constraint_residual := 10\<rparr>) \<noteq> PENALTY
   \<and> computeQpResidual Slave
        (example_assembled\<lparr>formulation := UnknownFormulation 2, constraint_residual := 10\<rparr>)
       = 10
   \<and> computeQpResidual Master
        (example_assembled\<lparr>formulation := UnknownFormulation 2, constraint_residual := 10\<rparr>)
       = - 5
   \<and> computeQpOffDiagJacobian SlaveSlave 1
        (example_assembled\<lparr>formulation := UnknownFormulation 2, constraint_residual := 10\<rparr>)
       = Inr (- 10)
   \<and> computeQpOffDiagJacobian SlaveMaster 1
        (example_assembled\<lparr>formulation := UnknownFormulation 2, constraint_residual := 10\<rparr>)
       = Inr 0
   \<and> computeQpOffDiagJacobian MasterMaster 1
        (example_assembled\<lparr>formulation := UnknownFormulation 2, constraint_residual := 10\<rparr>)
       = Inr 0"
  by (simp add: example_assembled_def example_constraint_def example_node_def
        computeQpResidual_def computeQpOffDiagJacobian_def)

text \<open>
  C5 (amended): with a formulation that is neither kinematic nor penalty,
  \<^verbatim>\<open>reinitConstraint\<close>, each of the four blocks of \<^verbatim>\<open>computeQpJacobian\<close> and the
  master-slave block of \<^verbatim>\<open>computeQpOffDiagJacobian\<close> end in the fatal error
  \<^verbatim>\<open>Invalid formulation\<close> instead of a value. \<^verbatim>\<open>computeQpResidual\<close> returns a value:
  test_slave times the constraint residual on the slave side, test_master times the
  negated constraint residual on the master side. \<^verbatim>\<open>computeQpOffDiagJacobian\<close> returns
  \<open>- J\<close> for the slave-slave block and 0 for the slave-master and the master-master
  block.
\<close>

theorem C5_invalid_formulation:
  "formulation s \<noteq> KINEMATIC \<and> formulation s \<noteq> PENALTY \<longrightarrow>
     reinitConstraint s = Inl (MooseError ''Invalid formulation'')
     \<and> computeQpJacobian SlaveSlave s = Inl (MooseError ''Invalid formulation'')
     \<and> computeQpJacobian SlaveMaster s = Inl (MooseError ''Invalid formulation'')
     \<and> computeQpJacobian MasterSlave s = Inl (MooseError ''Invalid formulation'')
     \<and> computeQpJacobian MasterMaster s = Inl (MooseError ''Invalid formulation'')
     \<and> computeQpOffDiagJacobian MasterSlave jvar s = Inl (MooseError ''Invalid formulation'')
     \<and> computeQpResidual Slave s = test_slave s ! idx_i s ! idx_qp s * constraint_residual s
     \<and> computeQpResidual Master s
         = test_master s ! idx_i s ! idx_qp s * - constraint_residual s
     \<and> computeQpOffDiagJacobian SlaveSlave jvar s
         = Inr (- jacobian s (dof_number (current_node s) (sys_number s) (var_number s) 0)
                    (connected_dof_indices s ! idx_j s))
     \<and> computeQpOffDiagJacobian SlaveMaster jvar s = Inr 0
     \<and> computeQpOffDiagJacobian MasterMaster jvar s = Inr 0"
  by (cases "formulation s")
     (simp_all add: reinitConstraint_def computeQpJacobian_def computeQpOffDiagJacobian_def
        computeQpResidual_def)

theorem C5_invalid_formulation_witness:
  "reinitConstraint (example_assembled\<lparr>formulation := UnknownFormulation 2\<rparr>)
     = Inl (MooseError ''Invalid formulation'')
   \<and> computeQpJacobian SlaveSlave (example_assembled\<lparr>formulation := UnknownFormulation 2\<rparr>)
     = Inl (MooseError ''Invalid formulation'')
   \<and> computeQpJacobian SlaveMaster (example_assembled\<lparr>formulation := UnknownFormulation 2\<rparr>)
     = Inl (MooseError ''Invalid formulation'')
   \<and> computeQpJacobian MasterSlave (example_assembled\<lparr>formulation := UnknownFormulation 2\<rparr>)
     = Inl (MooseError ''Invalid formulation'')
   \<and> computeQpJacobian MasterMaster (example_assembled\<lparr>formulation := UnknownFormulation 2\<rparr>)
     = Inl (MooseError ''Invalid formulation'')
   \<and> computeQpOffDiagJacobian MasterSlave 1
        (example_assembled\<lparr>formulation := UnknownFormulation 2\<rparr>)
     = Inl (MooseError ''Invalid formulation'')
   \<and> computeQpResidual Slave (example_assembled\<lparr>formulation := UnknownFormulation 2\<rparr>) = 1 * 0
   \<and> computeQpResidual Master (example_assembled\<lparr>formulation := UnknownFormulation 2\<rparr>)
     = 1 / 2 * - 0
   \<and> computeQpOffDiagJacobian SlaveSlave 1
        (example_assembled\<lparr>formulation := UnknownFormulation 2\<rparr>)
     = Inr (- 10)
   \<and> computeQpOffDiagJacobian SlaveMaster 1
        (example_assembled\<lparr>formulation := UnknownFormulation 2\<rparr>)
     = Inr 0
   \<and> computeQpOffDiagJacobian MasterMaster 1
        (example_assembled\<lparr>formulation := UnknownFormulation 2\<rparr>)
     = Inr 0"
  using C5_invalid_formulation [of "example_assembled\<lparr>formulation := UnknownFormulation 2\<rparr>" 1]
  by (simp add: example_assembled_def example_constraint_def example_node_def)

section \<open>The two mixed blocks under the penalty formulation\<close>

text \<open>
  With penalty 10, \<open>phi_master = 1/2\<close>, \<open>test_slave = 1\<close>, \<open>phi_slave = 1\<close> and
  \<open>test_master = 1/2\<close> the slave-master value and the master-slave value are both -5:
  the one is not the negative of the other.
\<close>

theorem C8_penalty_blocks_counterexample:
  "formulation (example_assembled\<lparr>idx_j := 1\<rparr>) = PENALTY
   \<and> (case computeQpJacobian SlaveMaster (example_assembled\<lparr>idx_j := 1\<rparr>) of
         Inl e \<Rightarrow> False
       | Inr sm \<Rightarrow>
           (case computeQpJacobian MasterSlave (example_assembled\<lparr>idx_j := 1\<rparr>) of
              Inl e \<Rightarrow> False
            | Inr ms \<Rightarrow> sm = - 5 \<and> ms = - 5 \<and> sm \<noteq> - ms))"
  by (simp add: example_assembled_def example_constraint_def computeQpJacobian_def)

text \<open>
  C8 (amended): under the penalty formulation, for every penalty value and all index
  pairs, the slave-master value of \<^verbatim>\<open>computeQpJacobian\<close> is
  \<open>- phi_master * penalty * test_slave\<close> and the master-slave value is
  \<open>- phi_slave * penalty * test_master\<close>, each evaluated as the source writes it (negate
  the shape value, multiply by the penalty, multiply by the test value). At indices where
  the master and slave values coincide, \<open>phi_master = phi_slave\<close> and
  \<open>test_slave = test_master\<close>, the slave-master value equals the master-slave value. The
  last part is a substitution of equals: it uses no law of arithmetic.
\<close>

theorem C8_penalty_blocks:
  "formulation s = PENALTY \<longrightarrow>
     computeQpJacobian SlaveMaster s
       = Inr (- phi_master s ! idx_j s ! idx_qp s * penalty s * test_slave s ! idx_i s ! idx_qp s)
     \<and> computeQpJacobian MasterSlave s
       = Inr (- phi_slave s ! idx_j s ! idx_qp s * penalty s * test_master s ! idx_i s ! idx_qp s)
     \<and> (phi_master s ! idx_j s ! idx_qp s = phi_slave s ! idx_j s ! idx_qp s
         \<and> test_slave s ! idx_i s ! idx_qp s = test_master s ! idx_i s ! idx_qp s
        \<longrightarrow> computeQpJacobian SlaveMaster s = computeQpJacobian MasterSlave s)"
proof (intro impI conjI)
  assume p: "formulation s = PENALTY"
  have sm: "computeQpJacobian SlaveMaster s
       = Inr (- phi_master s ! idx_j s ! idx_qp s * penalty s * test_slave s ! idx_i s ! idx_qp s)"
    unfolding computeQpJacobian_def Let_def
    by (simp only: p ConstraintJacobianType.case Formulation.case)
  have ms: "computeQpJacobian MasterSlave s
       = Inr (- phi_slave s ! idx_j s ! idx_qp s * penalty s * test_master s ! idx_i s ! idx_qp s)"
    unfolding computeQpJacobian_def Let_def
    by (simp only: p ConstraintJacobianType.case Formulation.case)
  show "computeQpJacobian SlaveMaster s
       = Inr (- phi_master s ! idx_j s ! idx_qp s * penalty s * test_slave s ! idx_i s ! idx_qp s)"
    by (rule sm)
  show "computeQpJacobian MasterSlave s
       = Inr (- phi_slave s ! idx_j s ! idx_qp s * penalty s * test_master s ! idx_i s ! idx_qp s)"
    by (rule ms)
  assume e: "phi_master s ! idx_j s ! idx_qp s = phi_slave s ! idx_j s ! idx_qp s
         \<and> test_slave s ! idx_i s ! idx_qp s = test_master s ! idx_i s ! idx_qp s"
  show "computeQpJacobian SlaveMaster s = computeQpJacobian MasterSlave s"
    unfolding sm ms by (simp only: e)
qed

theorem C8_penalty_blocks_witness:
  "formulation (example_assembled\<lparr>phi_master := [[0], [1]], test_master := [[1], [1]],
                                   idx_j := 1\<rparr>) = PENALTY
   \<and> computeQpJacobian SlaveMaster
        (example_assembled\<lparr>phi_master := [[0], [1]], test_master := [[1], [1]], idx_j := 1\<rparr>)
       = Inr (- 1 * 10 * 1)
   \<and> computeQpJacobian MasterSlave
        (example_assembled\<lparr>phi_master := [[0], [1]], test_master := [[1], [1]], idx_j := 1\<rparr>)
       = Inr (- 1 * 10 * 1)
   \<and> computeQpJacobian SlaveMaster
        (example_assembled\<lparr>phi_master := [[0], [1]], test_master := [[1], [1]], idx_j := 1\<rparr>)
       = computeQpJacobian MasterSlave
           (example_assembled\<lparr>phi_master := [[0], [1]], test_master := [[1], [1]],
                                idx_j := 1\<rparr>)"
  using C8_penalty_blocks
          [of "example_assembled\<lparr>phi_master := [[0], [1]], test_master := [[1], [1]],
                                   idx_j := 1\<rparr>"]
  by (simp add: example_assembled_def example_constraint_def)

section \<open>The slave basis vector\<close>

lemma vec_resize_one_update: "(vec_resize (Suc 0) d xs)[0 := v] = [v]"
  by (cases xs) (simp_all add: vec_resize_def)

lemma length_vec_resize: "length (vec_resize k d xs) = k"
  by (simp add: vec_resize_def)

lemma fill_phi_slave_stop:
  "\<not> j < length (connected_dof_indices s) \<Longrightarrow> fill_phi_slave j c s = s"
  by (simp add: fill_phi_slave.simps [of j c s])

lemma fill_phi_slave_step:
  "j < length (connected_dof_indices s) \<Longrightarrow> j < length (phi_slave s) \<Longrightarrow> idx_qp s = 0 \<Longrightarrow>
   fill_phi_slave j c s
     = fill_phi_slave (Suc j) c
         (s\<lparr>phi_slave := (phi_slave s)[j := [if connected_dof_indices s ! j = c then 1 else 0]]\<rparr>)"
  by (simp add: fill_phi_slave.simps [of j c s] Let_def vec_resize_one_update)

lemma fill_phi_slave_eq:
  "idx_qp s = 0 \<Longrightarrow> length (phi_slave s) = length (connected_dof_indices s) \<Longrightarrow>
   fill_phi_slave j c s
     = s\<lparr>phi_slave :=
           take j (phi_slave s)
           @ map (\<lambda>d. [if d = c then 1 else 0]) (drop j (connected_dof_indices s))\<rparr>"
proof (induction "length (connected_dof_indices s) - j" arbitrary: j s)
  case 0
  then show ?case by (simp add: fill_phi_slave_stop)
next
  case (Suc n)
  then have j: "j < length (connected_dof_indices s)" by simp
  define s2 where "s2 =
    s\<lparr>phi_slave := (phi_slave s)[j := [if connected_dof_indices s ! j = c then 1 else 0]]\<rparr>"
  have step: "fill_phi_slave j c s = fill_phi_slave (Suc j) c s2"
    using j Suc.prems by (simp add: fill_phi_slave_step s2_def)
  have "fill_phi_slave (Suc j) c s2
      = s2\<lparr>phi_slave :=
            take (Suc j) (phi_slave s2)
            @ map (\<lambda>d. [if d = c then 1 else 0]) (drop (Suc j) (connected_dof_indices s2))\<rparr>"
    using Suc.hyps(2) Suc.prems by (intro Suc.hyps(1)) (simp_all add: s2_def)
  also have "\<dots> = s\<lparr>phi_slave :=
           take j (phi_slave s)
           @ map (\<lambda>d. [if d = c then 1 else 0]) (drop j (connected_dof_indices s))\<rparr>"
    using j Suc.prems
    by (simp add: s2_def take_Suc_conv_app_nth Cons_nth_drop_Suc [symmetric])
  finally show ?case unfolding step .
qed

lemma getConnectedDofIndices_eq:
  "getConnectedDofIndices var_num s =
     s\<lparr>connected_dof_indices := connected_dofs_of s var_num,
       phi_slave := map (\<lambda>d. [if d = nodalDofIndex s var_num then 1 else 0])
                      (connected_dofs_of s var_num),
       idx_qp := 0\<rparr>"
  by (simp add: getConnectedDofIndices_def NodeElemConstraint_getConnectedDofIndices_def
        fill_phi_slave_eq length_vec_resize)

lemma length_filter_eq_le_one: "distinct xs \<Longrightarrow> length (filter (\<lambda>d. d = c) xs) \<le> 1"
  by (induction xs) (auto simp: filter_empty_conv)

text \<open>
  C10: after \<^verbatim>\<open>getConnectedDofIndices(var_num)\<close> the slave basis vector \<open>phi_slave\<close> has
  as many entries as there are connected dof indices, each entry holds exactly one value
  (the quadrature point is 0), and the value is 1 where the connected dof index equals
  the current node's dof index for the variable and 0 elsewhere. The connected dofs come
  from the base-class resolution, a set of dofs by the spec: when they are distinct, at
  most one entry is 1. When none of them is the node's dof index every entry is 0. The
  function is total: it raises no error.
\<close>

theorem C10_getConnectedDofIndices:
  "connected_dof_indices (getConnectedDofIndices var_num s) = connected_dofs_of s var_num
   \<and> idx_qp (getConnectedDofIndices var_num s) = 0
   \<and> length (phi_slave (getConnectedDofIndices var_num s))
       = length (connected_dof_indices (getConnectedDofIndices var_num s))
   \<and> (\<forall>j < length (connected_dof_indices (getConnectedDofIndices var_num s)).
         length (phi_slave (getConnectedDofIndices var_num s) ! j) = 1
         \<and> phi_slave (getConnectedDofIndices var_num s) ! j ! 0
             = (if connected_dof_indices (getConnectedDofIndices var_num s) ! j
                   = nodalDofIndex s var_num
                then 1 else 0))
   \<and> (distinct (connected_dofs_of s var_num) \<longrightarrow>
         length (filter (\<lambda>e. e ! 0 = 1) (phi_slave (getConnectedDofIndices var_num s))) \<le> 1)
   \<and> (nodalDofIndex s var_num \<notin> set (connected_dofs_of s var_num) \<longrightarrow>
         (\<forall>e \<in> set (phi_slave (getConnectedDofIndices var_num s)). e = [0]))"
proof (intro conjI impI allI ballI)
  show "connected_dof_indices (getConnectedDofIndices var_num s) = connected_dofs_of s var_num"
    by (simp add: getConnectedDofIndices_eq)
  show "idx_qp (getConnectedDofIndices var_num s) = 0"
    by (simp add: getConnectedDofIndices_eq)
  show "length (phi_slave (getConnectedDofIndices var_num s))
       = length (connected_dof_indices (getConnectedDofIndices var_num s))"
    by (simp add: getConnectedDofIndices_eq)
next
  fix j assume "j < length (connected_dof_indices (getConnectedDofIndices var_num s))"
  then have j: "j < length (connected_dofs_of s var_num)"
    by (simp add: getConnectedDofIndices_eq)
  show "length (phi_slave (getConnectedDofIndices var_num s) ! j) = 1"
    using j by (simp add: getConnectedDofIndices_eq)
  show "phi_slave (getConnectedDofIndices var_num s) ! j ! 0
             = (if connected_dof_indices (getConnectedDofIndices var_num s) ! j
                   = nodalDofIndex s var_num
                then 1 else 0)"
    using j by (simp add: getConnectedDofIndices_eq)
next
  assume d: "distinct (connected_dofs_of s var_num)"
  have "filter (\<lambda>e. e ! 0 = (1::real))
          (map (\<lambda>d. [if d = nodalDofIndex s var_num then 1 else 0]) (connected_dofs_of s var_num))
        = map (\<lambda>d. [if d = nodalDofIndex s var_num then 1 else 0])
            (filter (\<lambda>d. d = nodalDofIndex s var_num) (connected_dofs_of s var_num))"
    by (induction "connected_dofs_of s var_num") (auto simp: filter_map o_def)
  then show "length (filter (\<lambda>e. e ! 0 = 1) (phi_slave (getConnectedDofIndices var_num s))) \<le> 1"
    using length_filter_eq_le_one [OF d, of "nodalDofIndex s var_num"]
    by (simp add: getConnectedDofIndices_eq)
next
  fix e
  assume "nodalDofIndex s var_num \<notin> set (connected_dofs_of s var_num)"
    and "e \<in> set (phi_slave (getConnectedDofIndices var_num s))"
  then show "e = [0]"
    by (auto simp: getConnectedDofIndices_eq)
qed

lemma example_getConnectedDofIndices:
  "getConnectedDofIndices 0 example_constraint =
     example_constraint\<lparr>connected_dof_indices := [3, 4, 8], phi_slave := [[0], [1], [0]],
                        idx_qp := 0\<rparr>"
  by (simp add: getConnectedDofIndices_eq example_constraint_def)

theorem C10_getConnectedDofIndices_witness:
  "connected_dof_indices (getConnectedDofIndices 0 example_constraint) = [3, 4, 8]
   \<and> idx_qp (getConnectedDofIndices 0 example_constraint) = 0
   \<and> length (phi_slave (getConnectedDofIndices 0 example_constraint)) = 3
   \<and> length (phi_slave (getConnectedDofIndices 0 example_constraint) ! 1) = 1
   \<and> phi_slave (getConnectedDofIndices 0 example_constraint) ! 1 ! 0 = 1
   \<and> phi_slave (getConnectedDofIndices 0 example_constraint) ! 2 ! 0 = 0
   \<and> distinct (connected_dofs_of example_constraint 0)
   \<and> length (filter (\<lambda>e. e ! 0 = 1) (phi_slave (getConnectedDofIndices 0 example_constraint)))
       \<le> 1
   \<and> nodalDofIndex (example_constraint\<lparr>nodalDofIndex := (\<lambda>v. 5)\<rparr>) 0
       \<notin> set (connected_dofs_of (example_constraint\<lparr>nodalDofIndex := (\<lambda>v. 5)\<rparr>) 0)
   \<and> list_all (\<lambda>e. e = [0])
         (phi_slave (getConnectedDofIndices 0 (example_constraint\<lparr>nodalDofIndex := (\<lambda>v. 5)\<rparr>)))"
proof -
  note t = C10_getConnectedDofIndices [of 0 example_constraint]
  note u = C10_getConnectedDofIndices [of 0 "example_constraint\<lparr>nodalDofIndex := (\<lambda>v. 5)\<rparr>"]
  have cd: "connected_dofs_of example_constraint 0 = [3, 4, 8]"
    by (simp add: example_constraint_def)
  have nd: "nodalDofIndex example_constraint 0 = 4"
    by (simp add: example_constraint_def)
  have c: "connected_dof_indices (getConnectedDofIndices 0 example_constraint) = [3, 4, 8]"
    using t cd by simp
  have q: "idx_qp (getConnectedDofIndices 0 example_constraint) = 0"
    using t by blast
  have l: "length (phi_slave (getConnectedDofIndices 0 example_constraint)) = 3"
    using t c by simp
  have all: "\<forall>j<3. length (phi_slave (getConnectedDofIndices 0 example_constraint) ! j) = 1
         \<and> phi_slave (getConnectedDofIndices 0 example_constraint) ! j ! 0
             = (if [3, 4, 8] ! j = (4::nat) then 1 else 0)"
    using t unfolding c nd by simp
  have e1: "length (phi_slave (getConnectedDofIndices 0 example_constraint) ! 1) = 1"
    and e2: "phi_slave (getConnectedDofIndices 0 example_constraint) ! 1 ! 0 = 1"
    and e3: "phi_slave (getConnectedDofIndices 0 example_constraint) ! 2 ! 0 = 0"
    using all [rule_format, of 1] all [rule_format, of 2] by simp_all
  have d: "distinct (connected_dofs_of example_constraint 0)"
    by (simp add: cd)
  have f: "length (filter (\<lambda>e. e ! 0 = 1)
             (phi_slave (getConnectedDofIndices 0 example_constraint))) \<le> 1"
    using t d by blast
  have n: "nodalDofIndex (example_constraint\<lparr>nodalDofIndex := (\<lambda>v. 5)\<rparr>) 0
       \<notin> set (connected_dofs_of (example_constraint\<lparr>nodalDofIndex := (\<lambda>v. 5)\<rparr>) 0)"
    by (simp add: example_constraint_def)
  have z: "list_all (\<lambda>e. e = [0])
         (phi_slave (getConnectedDofIndices 0 (example_constraint\<lparr>nodalDofIndex := (\<lambda>v. 5)\<rparr>)))"
    using u n unfolding list_all_iff by blast
  show ?thesis
    using c q l e1 e2 e3 d f n z by blast
qed

section \<open>Building the slave-to-master map\<close>

lemma visit_slave_node_eq:
  "visit_slave_node sn s =
     (if slave_to_master_map s (node_id sn) = None
      then (case locate_master s sn of
              Some e \<Rightarrow>
                s\<lparr>slave_to_master_map := (slave_to_master_map s)(node_id sn \<mapsto> elem_id e),
                  locator_queries := locator_queries s @ [sn],
                  ghosted_elems := ghosted_elems s @ [elem_id e]\<rparr>
            | None \<Rightarrow> s\<lparr>locator_queries := locator_queries s @ [sn]\<rparr>)
      else s)"
  by (simp add: visit_slave_node_def locate_master_def addGhostedElem_def Let_def
        split: option.splits)

lemma locate_master_update [simp]:
  "locate_master (s\<lparr>slave_to_master_map := m\<rparr>) = locate_master s"
  "locate_master (s\<lparr>locator_queries := q\<rparr>) = locate_master s"
  "locate_master (s\<lparr>ghosted_elems := g\<rparr>) = locate_master s"
  by (simp_all add: locate_master_def fun_eq_iff)

lemma locate_master_visit [simp]:
  "locate_master (visit_slave_node sn s) = locate_master s"
  by (rule ext) (simp add: visit_slave_node_eq locate_master_def split: option.splits)

lemma locate_master_node_loop [simp]:
  "locate_master (node_loop sns s) = locate_master s"
  by (induction sns arbitrary: s) simp_all

lemma node_loop_append: "node_loop (xs @ ys) s = node_loop ys (node_loop xs s)"
  by (induction xs arbitrary: s) simp_all

lemma elem_loop_node_loop:
  "elem_loop elems s = node_loop (concat (map node_ref_range elems)) s"
  by (induction elems arbitrary: s) (simp_all add: node_loop_append)

lemma prepareSlaveToMasterMap_node_loop:
  "prepareSlaveToMasterMap s = node_loop (slave_nodes s) s"
  by (simp add: prepareSlaveToMasterMap_def slave_nodes_def elem_loop_node_loop)

lemma node_loop_map:
  "slave_to_master_map (node_loop sns s) k =
     (case slave_to_master_map s k of
        Some mid \<Rightarrow> Some mid
      | None \<Rightarrow>
          (case find (\<lambda>sn. node_id sn = k \<and> locate_master s sn \<noteq> None) sns of
             Some sn \<Rightarrow> map_option elem_id (locate_master s sn)
           | None \<Rightarrow> None))"
proof (induction sns arbitrary: s)
  case Nil
  then show ?case by (simp split: option.splits)
next
  case (Cons sn sns)
  show ?case
    by (simp add: Cons.IH) (auto simp: visit_slave_node_eq split: option.splits)
qed

lemma node_loop_queries:
  "\<exists>qs. locator_queries (node_loop sns s) = locator_queries s @ qs
        \<and> ghosted_elems (node_loop sns s)
            = ghosted_elems s
              @ map (\<lambda>sn. elem_id (the (locate_master s sn)))
                  (filter (\<lambda>sn. locate_master s sn \<noteq> None) qs)
        \<and> set qs \<subseteq> set sns
        \<and> (\<forall>sn \<in> set qs. slave_to_master_map s (node_id sn) = None)
        \<and> (\<forall>qs1 sn qs2. qs = qs1 @ sn # qs2 \<and> locate_master s sn \<noteq> None \<longrightarrow>
              (\<forall>sn' \<in> set qs2. node_id sn' \<noteq> node_id sn))
        \<and> (\<forall>sn \<in> set qs. \<forall>e. locate_master s sn = Some e \<longrightarrow>
              slave_to_master_map (node_loop sns s) (node_id sn) = Some (elem_id e))"
proof (induction sns arbitrary: s)
  case Nil
  then show ?case by simp
next
  case (Cons sn sns)
  define s1 where "s1 = visit_slave_node sn s"
  obtain qs where qs:
    "locator_queries (node_loop sns s1) = locator_queries s1 @ qs"
    "ghosted_elems (node_loop sns s1)
       = ghosted_elems s1
         @ map (\<lambda>sn. elem_id (the (locate_master s sn)))
             (filter (\<lambda>sn. locate_master s sn \<noteq> None) qs)"
    "set qs \<subseteq> set sns"
    "\<forall>sn \<in> set qs. slave_to_master_map s1 (node_id sn) = None"
    "\<forall>qs1 sn qs2. qs = qs1 @ sn # qs2 \<and> locate_master s sn \<noteq> None \<longrightarrow>
        (\<forall>sn' \<in> set qs2. node_id sn' \<noteq> node_id sn)"
    "\<forall>sn \<in> set qs. \<forall>e. locate_master s sn = Some e \<longrightarrow>
        slave_to_master_map (node_loop sns s1) (node_id sn) = Some (elem_id e)"
    using Cons.IH [of s1] by (auto simp: s1_def)
  have grow: "slave_to_master_map s k = None" if "slave_to_master_map s1 k = None" for k
    using that by (auto simp: s1_def visit_slave_node_eq split: option.splits if_splits)
  show ?case
  proof (cases "slave_to_master_map s (node_id sn)")
    case (Some mid)
    then have "s1 = s" by (simp add: s1_def visit_slave_node_eq)
    with qs show ?thesis
      by (intro exI [of _ qs]) (auto simp: s1_def [symmetric])
  next
    case None
    note unmapped = this
    show ?thesis
    proof (cases "locate_master s sn")
      case None
      then have s1: "s1 = s\<lparr>locator_queries := locator_queries s @ [sn]\<rparr>"
        using unmapped by (simp add: s1_def visit_slave_node_eq)
      have split: "(\<forall>sn' \<in> set qs2. node_id sn' \<noteq> node_id x)"
        if "sn # qs = qs1 @ x # qs2" "locate_master s x \<noteq> None" for qs1 x qs2
      proof (cases qs1)
        case Nil
        with that None show ?thesis by simp
      next
        case (Cons a qs1')
        with that have "qs = qs1' @ x # qs2" by simp
        with qs(5) that(2) show ?thesis by blast
      qed
      show ?thesis
        using qs(1,2,3,4,6) unmapped None split
        by (intro exI [of _ "sn # qs"]) (auto simp: s1_def [symmetric] s1)
    next
      case (Some e)
      then have s1: "s1 = s\<lparr>slave_to_master_map := (slave_to_master_map s)(node_id sn \<mapsto> elem_id e),
                  locator_queries := locator_queries s @ [sn],
                  ghosted_elems := ghosted_elems s @ [elem_id e]\<rparr>"
        using unmapped by (simp add: s1_def visit_slave_node_eq)
      have later: "\<forall>sn' \<in> set qs. node_id sn' \<noteq> node_id sn"
        using qs(4) by (auto simp: s1)
      have split: "(\<forall>sn' \<in> set qs2. node_id sn' \<noteq> node_id x)"
        if "sn # qs = qs1 @ x # qs2" "locate_master s x \<noteq> None" for qs1 x qs2
      proof (cases qs1)
        case Nil
        with that later show ?thesis by simp
      next
        case (Cons a qs1')
        with that have "qs = qs1' @ x # qs2" by simp
        with qs(5) that(2) show ?thesis by blast
      qed
      have head: "slave_to_master_map (node_loop sns s1) (node_id sn) = Some (elem_id e)"
        by (simp add: node_loop_map s1)
      show ?thesis
        using qs(1,2,3,6) unmapped Some split grow qs(4) head
        by (intro exI [of _ "sn # qs"]) (auto simp: s1_def [symmetric] s1)
    qed
  qed
qed


lemma node_loop_ghosted:
  "slave_to_master_map (node_loop sns s) k = Some mid \<Longrightarrow> slave_to_master_map s k = None \<Longrightarrow>
   mid \<in> set (ghosted_elems (node_loop sns s))"
proof (induction sns arbitrary: s)
  case Nil
  then show ?case by simp
next
  case (Cons sn sns)
  define s1 where "s1 = visit_slave_node sn s"
  have final: "slave_to_master_map (node_loop sns s1) k = Some mid"
    using Cons.prems(1) by (simp add: s1_def)
  show ?case
  proof (cases "slave_to_master_map s1 k")
    case None
    from Cons.IH [OF final None] show ?thesis by (simp add: s1_def)
  next
    case (Some m1)
    then have "mid = m1"
      using final by (simp add: node_loop_map)
    moreover have "m1 \<in> set (ghosted_elems s1)"
      using Some Cons.prems(2)
      by (auto simp: s1_def visit_slave_node_eq split: option.splits if_splits)
    moreover obtain qs where
      "ghosted_elems (node_loop sns s1)
         = ghosted_elems s1
           @ map (\<lambda>sn. elem_id (the (locate_master s1 sn)))
               (filter (\<lambda>sn. locate_master s1 sn \<noteq> None) qs)"
      using node_loop_queries [of sns s1] by blast
    ultimately show ?thesis by (simp add: s1_def)
  qed
qed

text \<open>
  C6: after \<^verbatim>\<open>prepareSlaveToMasterMap\<close> a node id maps to at most one master element
  (the map is a function): an id already in the map keeps its element, and an id not yet
  in the map gets the element of the first visited node with that id that the point
  locator, restricted to the master subdomain, finds in an element; an id none of whose
  nodes is located stays absent. The locator is queried only for ids that are not in the
  map, and once a query for an id has found an element no later query has that id: later
  occurrences are skipped. Every located query inserts its entry (node id to element
  id), and the element id is passed to \<^verbatim>\<open>addGhostedElem\<close>, in the order of the queries.
  The function is total: no error is raised.
\<close>

theorem C6_prepareSlaveToMasterMap:
  "(\<forall>k. slave_to_master_map (prepareSlaveToMasterMap s) k =
          (case slave_to_master_map s k of
             Some mid \<Rightarrow> Some mid
           | None \<Rightarrow>
               (case find (\<lambda>sn. node_id sn = k \<and> locate_master s sn \<noteq> None) (slave_nodes s) of
                  Some sn \<Rightarrow> map_option elem_id (locate_master s sn)
                | None \<Rightarrow> None)))
   \<and> (\<exists>qs. locator_queries (prepareSlaveToMasterMap s) = locator_queries s @ qs
          \<and> ghosted_elems (prepareSlaveToMasterMap s)
              = ghosted_elems s
                @ map (\<lambda>sn. elem_id (the (locate_master s sn)))
                    (filter (\<lambda>sn. locate_master s sn \<noteq> None) qs)
          \<and> set qs \<subseteq> set (slave_nodes s)
          \<and> (\<forall>sn \<in> set qs. slave_to_master_map s (node_id sn) = None)
          \<and> (\<forall>qs1 sn qs2. qs = qs1 @ sn # qs2 \<and> locate_master s sn \<noteq> None \<longrightarrow>
                (\<forall>sn' \<in> set qs2. node_id sn' \<noteq> node_id sn))
          \<and> (\<forall>sn \<in> set qs. \<forall>e. locate_master s sn = Some e \<longrightarrow>
                slave_to_master_map (prepareSlaveToMasterMap s) (node_id sn) = Some (elem_id e)))
   \<and> (\<forall>k mid. slave_to_master_map s k = None
          \<and> slave_to_master_map (prepareSlaveToMasterMap s) k = Some mid
          \<longrightarrow> mid \<in> set (ghosted_elems (prepareSlaveToMasterMap s)))
   \<and> (\<forall>k. slave_to_master_map s k = None
          \<and> (\<forall>sn \<in> set (slave_nodes s). node_id sn = k \<longrightarrow> locate_master s sn = None)
          \<longrightarrow> slave_to_master_map (prepareSlaveToMasterMap s) k = None)"
proof (intro conjI allI impI)
  fix k
  show "slave_to_master_map (prepareSlaveToMasterMap s) k =
          (case slave_to_master_map s k of
             Some mid \<Rightarrow> Some mid
           | None \<Rightarrow>
               (case find (\<lambda>sn. node_id sn = k \<and> locate_master s sn \<noteq> None) (slave_nodes s) of
                  Some sn \<Rightarrow> map_option elem_id (locate_master s sn)
                | None \<Rightarrow> None))"
    by (simp add: prepareSlaveToMasterMap_node_loop node_loop_map)
next
  show "\<exists>qs. locator_queries (prepareSlaveToMasterMap s) = locator_queries s @ qs
          \<and> ghosted_elems (prepareSlaveToMasterMap s)
              = ghosted_elems s
                @ map (\<lambda>sn. elem_id (the (locate_master s sn)))
                    (filter (\<lambda>sn. locate_master s sn \<noteq> None) qs)
          \<and> set qs \<subseteq> set (slave_nodes s)
          \<and> (\<forall>sn \<in> set qs. slave_to_master_map s (node_id sn) = None)
          \<and> (\<forall>qs1 sn qs2. qs = qs1 @ sn # qs2 \<and> locate_master s sn \<noteq> None \<longrightarrow>
                (\<forall>sn' \<in> set qs2. node_id sn' \<noteq> node_id sn))
          \<and> (\<forall>sn \<in> set qs. \<forall>e. locate_master s sn = Some e \<longrightarrow>
                slave_to_master_map (prepareSlaveToMasterMap s) (node_id sn) = Some (elem_id e))"
    unfolding prepareSlaveToMasterMap_node_loop by (rule node_loop_queries)
next
  fix k mid
  assume "slave_to_master_map s k = None
          \<and> slave_to_master_map (prepareSlaveToMasterMap s) k = Some mid"
  then show "mid \<in> set (ghosted_elems (prepareSlaveToMasterMap s))"
    unfolding prepareSlaveToMasterMap_node_loop by (blast intro: node_loop_ghosted)
next
  fix k
  assume a: "slave_to_master_map s k = None
          \<and> (\<forall>sn \<in> set (slave_nodes s). node_id sn = k \<longrightarrow> locate_master s sn = None)"
  then have "find (\<lambda>sn. node_id sn = k \<and> locate_master s sn \<noteq> None) (slave_nodes s) = None"
    by (auto simp: find_None_iff)
  with a show "slave_to_master_map (prepareSlaveToMasterMap s) k = None"
    by (simp add: prepareSlaveToMasterMap_node_loop node_loop_map)
qed

text \<open>The run on the small configuration.\<close>

lemma example_prepareSlaveToMasterMap:
  "prepareSlaveToMasterMap example_constraint =
     example_constraint
       \<lparr>slave_to_master_map := [6 \<mapsto> 10],
        locator_queries :=
          [\<lparr>node_id = 5, node_point = (0, 0, 0), dof_number = (\<lambda>sys var comp. 2)\<rparr>,
           example_node,
           \<lparr>node_id = 7, node_point = (2, 0, 0), dof_number = (\<lambda>sys var comp. 9)\<rparr>],
        ghosted_elems := [10]\<rparr>"
  by (simp add: prepareSlaveToMasterMap_def active_subdomain_elements_def example_constraint_def
        example_mesh_def example_node_def example_master_elem_def visit_slave_node_def
        addGhostedElem_def)

theorem C6_prepareSlaveToMasterMap_witness:
  "slave_nodes example_constraint
     = [\<lparr>node_id = 5, node_point = (0, 0, 0), dof_number = (\<lambda>sys var comp. 2)\<rparr>,
        example_node, example_node,
        \<lparr>node_id = 7, node_point = (2, 0, 0), dof_number = (\<lambda>sys var comp. 9)\<rparr>]
   \<and> slave_to_master_map (prepareSlaveToMasterMap example_constraint) 6 = Some 10
   \<and> slave_to_master_map (prepareSlaveToMasterMap example_constraint) 5 = None
   \<and> slave_to_master_map (prepareSlaveToMasterMap example_constraint) 7 = None
   \<and> map node_id (locator_queries (prepareSlaveToMasterMap example_constraint)) = [5, 6, 7]
   \<and> ghosted_elems (prepareSlaveToMasterMap example_constraint) = [10]"
  using C6_prepareSlaveToMasterMap [of example_constraint]
  by (simp add: example_prepareSlaveToMasterMap)
     (simp add: slave_nodes_def active_subdomain_elements_def example_constraint_def
        example_mesh_def example_node_def example_master_elem_def)

section \<open>The activation gate\<close>

text \<open>
  C7: if the current node's id is not a key of the slave-to-master map, \<^verbatim>\<open>shouldApply\<close>
  returns false and leaves the state as it is. If it is a key (and the formulation is one
  of the two), \<^verbatim>\<open>shouldApply\<close> resolves the stored element with \<^verbatim>\<open>elemPtr\<close>, passes it to
  \<^verbatim>\<open>setNeighborSubdomainID\<close>, then to \<^verbatim>\<open>reinitNeighborPhys\<close> with the single point of the
  current node, computes the constraint residual of the formulation from the
  reinitialized master values, and returns true.
\<close>

theorem C7_shouldApply:
  "(slave_to_master_map s (node_id (current_node s)) = None \<longrightarrow> shouldApply s = Inr (False, s))
   \<and> (\<forall>mid. slave_to_master_map s (node_id (current_node s)) = Some mid
          \<and> (formulation s = KINEMATIC \<or> formulation s = PENALTY) \<longrightarrow>
        shouldApply s =
          Inr (True,
               s\<lparr>u_master :=
                    np_u_master (neighbor_phys_at s (elemPtr (mesh s) mid)
                                   [node_point (current_node s)]),
                 phi_master :=
                    np_phi_master (neighbor_phys_at s (elemPtr (mesh s) mid)
                                     [node_point (current_node s)]),
                 test_master :=
                    np_test_master (neighbor_phys_at s (elemPtr (mesh s) mid)
                                      [node_point (current_node s)]),
                 fe_calls :=
                    fe_calls s
                    @ [SetNeighborSubdomainID (elemPtr (mesh s) mid) 0,
                       ReinitNeighborPhys (elemPtr (mesh s) mid)
                         [node_point (current_node s)] 0],
                 constraint_residual :=
                    (if formulation s = KINEMATIC
                     then - residual_copy s
                              (dof_number (current_node s) (sys_number s) (var_number s) 0)
                     else penalty s
                          * (u_slave s ! 0
                             - np_u_master (neighbor_phys_at s (elemPtr (mesh s) mid)
                                              [node_point (current_node s)]) ! 0))\<rparr>))"
  by (auto simp: shouldApply_def setNeighborSubdomainID_def reinitNeighborPhys_def
        reinitConstraint_def Let_def)

theorem C7_shouldApply_witness:
  "shouldApply example_constraint = Inr (False, example_constraint)
   \<and> elemPtr (mesh example_constraint) 10 = Some example_master_elem
   \<and> shouldApply (example_constraint\<lparr>slave_to_master_map := [6 \<mapsto> 10]\<rparr>)
       = Inr (True,
              example_constraint
                \<lparr>slave_to_master_map := [6 \<mapsto> 10],
                 fe_calls :=
                   [SetNeighborSubdomainID (Some example_master_elem) 0,
                    ReinitNeighborPhys (Some example_master_elem) [(1, 0, 0)] 0],
                 constraint_residual := 10\<rparr>)
   \<and> shouldApply (example_constraint\<lparr>slave_to_master_map := [6 \<mapsto> 10],
                                      formulation := KINEMATIC\<rparr>)
       = Inr (True,
              example_constraint
                \<lparr>slave_to_master_map := [6 \<mapsto> 10], formulation := KINEMATIC,
                 fe_calls :=
                   [SetNeighborSubdomainID (Some example_master_elem) 0,
                    ReinitNeighborPhys (Some example_master_elem) [(1, 0, 0)] 0],
                 constraint_residual := - 4\<rparr>)"
  using C7_shouldApply [of example_constraint]
        C7_shouldApply [of "example_constraint\<lparr>slave_to_master_map := [6 \<mapsto> 10]\<rparr>"]
        C7_shouldApply [of "example_constraint\<lparr>slave_to_master_map := [6 \<mapsto> 10],
                                      formulation := KINEMATIC\<rparr>"]
  by (simp add: example_constraint_def example_node_def example_mesh_def elemPtr_def
        example_master_elem_def)

section \<open>Block assembly\<close>

lemma computeQpJacobian_value:
  "formulation s = KINEMATIC \<or> formulation s = PENALTY \<Longrightarrow>
   computeQpJacobian t (s\<lparr>idx_i := i, idx_j := j\<rparr>) = Inr (qp_jacobian_value t s i j)"
  by (cases t; cases "formulation s")
     (simp_all add: computeQpJacobian_def qp_jacobian_value_def)

lemma computeQpOffDiagJacobian_value:
  "formulation s = KINEMATIC \<or> formulation s = PENALTY \<Longrightarrow>
   computeQpOffDiagJacobian t jvar (s\<lparr>idx_i := i, idx_j := j\<rparr>)
     = Inr (qp_offdiag_value t jvar s i j)"
  by (cases t; cases "formulation s")
     (simp_all add: computeQpOffDiagJacobian_def qp_offdiag_value_def)

lemma set_block_get_block: "set_block blk (get_block blk s) s = s"
  by (cases blk) (simp_all add: set_block_def get_block_def)

lemma loop_state_id:
  "loop_state blk (get_block blk s) (accumulated s) (idx_i s) (idx_j s) s = s"
  by (simp add: loop_state_def set_block_get_block)

lemma get_block_set_block:
  "get_block blk' (set_block blk A s) = (if blk' = blk then A else get_block blk' s)"
  by (cases blk; cases blk') (auto simp: set_block_def get_block_def)

lemma set_block_set_block: "set_block blk A' (set_block blk A s) = set_block blk A' s"
  by (cases blk) (simp_all add: set_block_def)

lemma set_block_fields:
  "accumulated (set_block blk A s) = accumulated s"
  "idx_i (set_block blk A s) = idx_i s"
  "idx_j (set_block blk A s) = idx_j s"
  by (cases blk; simp add: set_block_def)+

lemma set_block_commute_fields:
  "set_block blk A (s\<lparr>accumulated := L\<rparr>) = (set_block blk A s)\<lparr>accumulated := L\<rparr>"
  "set_block blk A (s\<lparr>idx_i := a\<rparr>) = (set_block blk A s)\<lparr>idx_i := a\<rparr>"
  "set_block blk A (s\<lparr>idx_j := b\<rparr>) = (set_block blk A s)\<lparr>idx_j := b\<rparr>"
  by (cases blk; simp add: set_block_def)+

lemma get_block_fields:
  "get_block blk (s\<lparr>accumulated := L\<rparr>) = get_block blk s"
  "get_block blk (s\<lparr>idx_i := a\<rparr>) = get_block blk s"
  "get_block blk (s\<lparr>idx_j := b\<rparr>) = get_block blk s"
  by (cases blk; simp add: get_block_def)+

lemma get_block_loop_state:
  "get_block blk' (loop_state blk A L a b s) = (if blk' = blk then A else get_block blk' s)"
  by (simp add: loop_state_def get_block_fields get_block_set_block)

lemma set_j_loop_state: "set_j k (loop_state blk A L a b s) = loop_state blk A L a k s"
  by (simp add: set_j_def loop_state_def)

lemma set_i_loop_state: "set_i k (loop_state blk A L a b s) = loop_state blk A L k b s"
  by (simp add: set_i_def loop_state_def)

lemma add_to_block_loop_state:
  "q (loop_state blk A L a b s) = Inr v \<Longrightarrow>
   add_to_block blk q (loop_state blk A L a b s)
     = Inr (loop_state blk (dm_add A a b v) (L @ [(blk, a, b, v)]) a b s)"
  by (simp add: add_to_block_def get_block_loop_state)
     (simp add: loop_state_def set_block_commute_fields set_block_set_block)

lemma for_each_inner:
  assumes q: "\<And>A L j. q (loop_state blk A L a j s) = Inr (v j)"
  shows "for_each set_j js (add_to_block blk q) (loop_state blk A L a b s)
     = Inr (loop_state blk (fold (\<lambda>j A. dm_add A a j (v j)) js A)
              (L @ map (\<lambda>j. (blk, a, j, v j)) js) a (last (b # js)) s)"
proof (induction js arbitrary: A L b)
  case Nil
  then show ?case by simp
next
  case (Cons k js)
  have step: "add_to_block blk q (loop_state blk A L a k s)
     = Inr (loop_state blk (dm_add A a k (v k)) (L @ [(blk, a, k, v k)]) a k s)"
    by (rule add_to_block_loop_state) (rule q)
  show ?case
    by (simp add: set_j_loop_state step Cons.IH)
qed

lemma for_loop_inner:
  assumes q: "\<And>A L j. q (loop_state blk A L a j s) = Inr (v j)"
  shows "for_loop set_j N (add_to_block blk q) (loop_state blk A L a b s)
     = Inr (loop_state blk (fold (\<lambda>j A. dm_add A a j (v j)) [0..<N] A)
              (L @ map (\<lambda>j. (blk, a, j, v j)) [0..<N]) a N s)"
proof -
  have "for_each set_j [0..<N] (add_to_block blk q) (loop_state blk A L a b s)
     = Inr (loop_state blk (fold (\<lambda>j A. dm_add A a j (v j)) [0..<N] A)
              (L @ map (\<lambda>j. (blk, a, j, v j)) [0..<N]) a (last (b # [0..<N])) s)"
    by (rule for_each_inner) (rule q)
  then show ?thesis
    by (simp add: for_loop_def set_j_loop_state)
qed

lemma for_each_outer:
  assumes q: "\<And>A L i j. q (loop_state blk A L i j s) = Inr (v i j)"
    and nb: "\<And>A L i j. nb (loop_state blk A L i j s) = N"
  shows "for_each set_i is (\<lambda>s. for_loop set_j (nb s) (add_to_block blk q) s)
           (loop_state blk A L a b s)
     = Inr (loop_state blk
              (fold (\<lambda>i A. fold (\<lambda>j A. dm_add A i j (v i j)) [0..<N] A) is A)
              (L @ concat (map (\<lambda>i. map (\<lambda>j. (blk, i, j, v i j)) [0..<N]) is))
              (last (a # is)) (if is = [] then b else N) s)"
proof (induction "is" arbitrary: A L a b)
  case Nil
  then show ?case by simp
next
  case (Cons k ks)
  have inner: "for_loop set_j N (add_to_block blk q) (loop_state blk A L k b s)
     = Inr (loop_state blk (fold (\<lambda>j A. dm_add A k j (v k j)) [0..<N] A)
              (L @ map (\<lambda>j. (blk, k, j, v k j)) [0..<N]) k N s)"
    by (rule for_loop_inner) (rule q)
  show ?case
    by (simp add: set_i_loop_state nb inner Cons.IH)
qed

lemma for_loop_outer:
  assumes q: "\<And>A L i j. q (loop_state blk A L i j s) = Inr (v i j)"
    and nb: "\<And>A L i j. nb (loop_state blk A L i j s) = N"
  shows "for_loop set_i M (\<lambda>s. for_loop set_j (nb s) (add_to_block blk q) s)
           (loop_state blk A L a b s)
     = Inr (loop_state blk
              (fold (\<lambda>i A. fold (\<lambda>j A. dm_add A i j (v i j)) [0..<N] A) [0..<M] A)
              (L @ additions blk M N v) M (if M = 0 then b else N) s)"
proof -
  have "for_each set_i [0..<M] (\<lambda>s. for_loop set_j (nb s) (add_to_block blk q) s)
           (loop_state blk A L a b s)
     = Inr (loop_state blk
              (fold (\<lambda>i A. fold (\<lambda>j A. dm_add A i j (v i j)) [0..<N] A) [0..<M] A)
              (L @ concat (map (\<lambda>i. map (\<lambda>j. (blk, i, j, v i j)) [0..<N]) [0..<M]))
              (last (a # [0..<M])) (if [0..<M] = [] then b else N) s)"
    by (rule for_each_outer) (rule q, rule nb)
  then show ?thesis
    by (simp add: for_loop_def set_i_loop_state additions_def)
qed

lemma apply_additions_append:
  "apply_additions (xs @ ys) blk A = apply_additions ys blk (apply_additions xs blk A)"
  by (simp add: apply_additions_def)

lemma apply_additions_row:
  "apply_additions (map (\<lambda>j. (blk, i, j, v i j)) js) blk A
     = fold (\<lambda>j A. dm_add A i j (v i j)) js A"
  by (induction js arbitrary: A) (simp_all add: apply_additions_def)

lemma apply_additions_rows:
  "apply_additions (concat (map (\<lambda>i. map (\<lambda>j. (blk, i, j, v i j)) js) is)) blk A
     = fold (\<lambda>i A. fold (\<lambda>j A. dm_add A i j (v i j)) js A) is A"
proof (induction "is" arbitrary: A)
  case Nil
  then show ?case by (simp add: apply_additions_def)
next
  case (Cons i "is")
  show ?case
    by (simp add: apply_additions_append apply_additions_row Cons.IH)
qed

lemma apply_additions_same:
  "apply_additions (additions blk M N v) blk A
     = fold (\<lambda>i A. fold (\<lambda>j A. dm_add A i j (v i j)) [0..<N] A) [0..<M] A"
  by (simp add: additions_def apply_additions_rows)

lemma apply_additions_none:
  "\<forall>x \<in> set adds. fst x \<noteq> blk \<Longrightarrow> apply_additions adds blk A = A"
  by (induction adds arbitrary: A) (auto simp: apply_additions_def)

lemma apply_additions_other:
  "blk' \<noteq> blk \<Longrightarrow> apply_additions (additions blk M N v) blk' A = A"
  by (rule apply_additions_none) (auto simp: additions_def)

lemma apply_additions_Nil: "apply_additions [] blk A = A"
  by (simp add: apply_additions_def)

lemma double_loop:
  assumes q: "\<And>A L i j. q (loop_state blk A L i j s) = Inr (v i j)"
    and nb: "\<And>A L i j. nb (loop_state blk A L i j s) = N"
  shows "for_loop set_i M (\<lambda>s. for_loop set_j (nb s) (add_to_block blk q) s) s
     = Inr (loop_state blk (apply_additions (additions blk M N v) blk (get_block blk s))
              (accumulated s @ additions blk M N v) M (if M = 0 then idx_j s else N) s)"
proof -
  have "for_loop set_i M (\<lambda>s. for_loop set_j (nb s) (add_to_block blk q) s)
           (loop_state blk (get_block blk s) (accumulated s) (idx_i s) (idx_j s) s)
     = Inr (loop_state blk
              (fold (\<lambda>i A. fold (\<lambda>j A. dm_add A i j (v i j)) [0..<N] A) [0..<M]
                 (get_block blk s))
              (accumulated s @ additions blk M N v) M (if M = 0 then idx_j s else N) s)"
    by (rule for_loop_outer) (rule q, rule nb)
  then show ?thesis
    by (simp add: loop_state_id apply_additions_same)
qed

lemma loop_state_fields:
  "formulation (loop_state blk A L a b s) = formulation s"
  "penalty (loop_state blk A L a b s) = penalty s"
  "jacobian (loop_state blk A L a b s) = jacobian s"
  "current_node (loop_state blk A L a b s) = current_node s"
  "sys_number (loop_state blk A L a b s) = sys_number s"
  "var_number (loop_state blk A L a b s) = var_number s"
  "master_var_number (loop_state blk A L a b s) = master_var_number s"
  "connected_dof_indices (loop_state blk A L a b s) = connected_dof_indices s"
  "phi_slave (loop_state blk A L a b s) = phi_slave s"
  "phi_master (loop_state blk A L a b s) = phi_master s"
  "test_slave (loop_state blk A L a b s) = test_slave s"
  "test_master (loop_state blk A L a b s) = test_master s"
  "idx_qp (loop_state blk A L a b s) = idx_qp s"
  "idx_i (loop_state blk A L a b s) = a"
  "idx_j (loop_state blk A L a b s) = b"
  "accumulated (loop_state blk A L a b s) = L"
  by (cases blk; simp add: loop_state_def set_block_def)+

lemma set_block_input_fields:
  "formulation (set_block blk A s) = formulation s"
  "penalty (set_block blk A s) = penalty s"
  "jacobian (set_block blk A s) = jacobian s"
  "current_node (set_block blk A s) = current_node s"
  "sys_number (set_block blk A s) = sys_number s"
  "var_number (set_block blk A s) = var_number s"
  "master_var_number (set_block blk A s) = master_var_number s"
  "connected_dof_indices (set_block blk A s) = connected_dof_indices s"
  "phi_slave (set_block blk A s) = phi_slave s"
  "phi_master (set_block blk A s) = phi_master s"
  "test_slave (set_block blk A s) = test_slave s"
  "test_master (set_block blk A s) = test_master s"
  "idx_qp (set_block blk A s) = idx_qp s"
  by (cases blk; simp add: set_block_def)+

lemma computeQpJacobian_loop_state:
  "formulation s = KINEMATIC \<or> formulation s = PENALTY \<Longrightarrow>
   computeQpJacobian t (loop_state blk A L i j s) = Inr (qp_jacobian_value t s i j)"
  by (cases t; cases "formulation s")
     (simp_all add: computeQpJacobian_def qp_jacobian_value_def loop_state_fields)

lemma computeQpOffDiagJacobian_loop_state:
  "formulation s = KINEMATIC \<or> formulation s = PENALTY \<Longrightarrow>
   computeQpOffDiagJacobian t jvar (loop_state blk A L i j s)
     = Inr (qp_offdiag_value t jvar s i j)"
  by (cases t; cases "formulation s")
     (simp_all add: computeQpOffDiagJacobian_def qp_offdiag_value_def loop_state_fields)

lemma qp_jacobian_value_frame:
  "qp_jacobian_value t (loop_state blk A L a b s) = qp_jacobian_value t s"
  "qp_jacobian_value t (set_block blk A s) = qp_jacobian_value t s"
  by (cases t; cases "formulation s";
      simp add: fun_eq_iff computeQpJacobian_def qp_jacobian_value_def loop_state_fields
        set_block_input_fields)+

lemma qp_offdiag_value_frame:
  "qp_offdiag_value t jvar (loop_state blk A L a b s) = qp_offdiag_value t jvar s"
  "qp_offdiag_value t jvar (set_block blk A s) = qp_offdiag_value t jvar s"
  by (cases t; cases "formulation s";
      simp add: fun_eq_iff computeQpOffDiagJacobian_def qp_offdiag_value_def loop_state_fields
        set_block_input_fields)+

lemma double_loop_connected:
  assumes valid: "formulation s = KINEMATIC \<or> formulation s = PENALTY"
  shows "for_loop set_i M
           (\<lambda>s. for_loop set_j (length (connected_dof_indices s))
                   (add_to_block blk (computeQpJacobian t)) s) s
     = Inr (loop_state blk
              (apply_additions
                 (additions blk M (length (connected_dof_indices s)) (qp_jacobian_value t s))
                 blk (get_block blk s))
              (accumulated s
               @ additions blk M (length (connected_dof_indices s)) (qp_jacobian_value t s))
              M (if M = 0 then idx_j s else length (connected_dof_indices s)) s)"
  by (rule double_loop)
     (simp_all add: computeQpJacobian_loop_state [OF valid] loop_state_fields)

lemma double_loop_phi_master:
  assumes valid: "formulation s = KINEMATIC \<or> formulation s = PENALTY"
  shows "for_loop set_i M
           (\<lambda>s. for_loop set_j (length (phi_master s))
                   (add_to_block blk (computeQpJacobian t)) s) s
     = Inr (loop_state blk
              (apply_additions
                 (additions blk M (length (phi_master s)) (qp_jacobian_value t s))
                 blk (get_block blk s))
              (accumulated s
               @ additions blk M (length (phi_master s)) (qp_jacobian_value t s))
              M (if M = 0 then idx_j s else length (phi_master s)) s)"
  by (rule double_loop)
     (simp_all add: computeQpJacobian_loop_state [OF valid] loop_state_fields)

lemma double_loop_offdiag_connected:
  assumes valid: "formulation s = KINEMATIC \<or> formulation s = PENALTY"
  shows "for_loop set_i M
           (\<lambda>s. for_loop set_j (length (connected_dof_indices s))
                   (add_to_block blk (computeQpOffDiagJacobian t jvar)) s) s
     = Inr (loop_state blk
              (apply_additions
                 (additions blk M (length (connected_dof_indices s))
                    (qp_offdiag_value t jvar s))
                 blk (get_block blk s))
              (accumulated s
               @ additions blk M (length (connected_dof_indices s)) (qp_offdiag_value t jvar s))
              M (if M = 0 then idx_j s else length (connected_dof_indices s)) s)"
  by (rule double_loop)
     (simp_all add: computeQpOffDiagJacobian_loop_state [OF valid] loop_state_fields)

lemma double_loop_offdiag_phi_master:
  assumes valid: "formulation s = KINEMATIC \<or> formulation s = PENALTY"
  shows "for_loop set_i M
           (\<lambda>s. for_loop set_j (length (phi_master s))
                   (add_to_block blk (computeQpOffDiagJacobian t jvar)) s) s
     = Inr (loop_state blk
              (apply_additions
                 (additions blk M (length (phi_master s)) (qp_offdiag_value t jvar s))
                 blk (get_block blk s))
              (accumulated s
               @ additions blk M (length (phi_master s)) (qp_offdiag_value t jvar s))
              M (if M = 0 then idx_j s else length (phi_master s)) s)"
  by (rule double_loop)
     (simp_all add: computeQpOffDiagJacobian_loop_state [OF valid] loop_state_fields)

lemma same_inputs_refl: "same_inputs s s"
  by (simp add: same_inputs_def)

lemma same_inputs_trans: "same_inputs s s' \<Longrightarrow> same_inputs s' s'' \<Longrightarrow> same_inputs s s''"
  by (simp add: same_inputs_def)

lemma same_inputs_loop_state: "same_inputs s (loop_state blk A L a b s)"
  by (simp add: same_inputs_def loop_state_fields)

lemma same_inputs_set_block: "same_inputs s (set_block blk A s)"
  by (simp add: same_inputs_def set_block_input_fields)

lemma same_inputs_if:
  "same_inputs s a \<Longrightarrow> same_inputs s b \<Longrightarrow> same_inputs s (if c then a else b)"
  by simp

lemma same_inputs_fields:
  assumes "same_inputs s s'"
  shows "formulation s' = formulation s" "var_number s' = var_number s"
    "master_var_number s' = master_var_number s"
    "connected_dof_indices s' = connected_dof_indices s"
    "phi_master s' = phi_master s" "test_slave s' = test_slave s"
    "test_master s' = test_master s"
  using assms by (simp_all add: same_inputs_def)

lemma same_inputs_qp_jacobian_value:
  "same_inputs s s' \<Longrightarrow> qp_jacobian_value t s' = qp_jacobian_value t s"
  by (cases t; cases "formulation s")
     (simp_all add: same_inputs_def fun_eq_iff qp_jacobian_value_def computeQpJacobian_def)

lemma same_inputs_qp_offdiag_value:
  "same_inputs s s' \<Longrightarrow> qp_offdiag_value t jvar s' = qp_offdiag_value t jvar s"
  by (cases t; cases "formulation s")
     (simp_all add: same_inputs_def fun_eq_iff qp_offdiag_value_def
        computeQpOffDiagJacobian_def)

lemma set_block_Kee: "s\<lparr>Kee := A\<rparr> = set_block KeeBlock A s"
  by (simp add: set_block_def)

lemma set_block_Kne: "s\<lparr>Kne := A\<rparr> = set_block KneBlock A s"
  by (simp add: set_block_def)

lemma accumulated_set_block: "accumulated (set_block blk A s) = accumulated s"
  by (cases blk) (simp_all add: set_block_def)

lemma getConnectedDofIndices_frame:
  "formulation (getConnectedDofIndices v s) = formulation s"
  "var_number (getConnectedDofIndices v s) = var_number s"
  "master_var_number (getConnectedDofIndices v s) = master_var_number s"
  "phi_master (getConnectedDofIndices v s) = phi_master s"
  "test_slave (getConnectedDofIndices v s) = test_slave s"
  "test_master (getConnectedDofIndices v s) = test_master s"
  "accumulated (getConnectedDofIndices v s) = accumulated s"
  "get_block blk (getConnectedDofIndices v s) = get_block blk s"
  "connected_dof_indices (getConnectedDofIndices v s) = connected_dofs_of s v"
  by (simp_all add: getConnectedDofIndices_eq get_block_def split: JacobianBlock.splits)

lemma phase_connected:
  assumes "same_inputs s1 s" "formulation s1 = KINEMATIC \<or> formulation s1 = PENALTY"
  shows "for_loop set_i M
           (\<lambda>s. for_loop set_j (length (connected_dof_indices s))
                   (add_to_block blk (computeQpJacobian t)) s) s
     = Inr (loop_state blk
              (apply_additions
                 (additions blk M (length (connected_dof_indices s1)) (qp_jacobian_value t s1))
                 blk (get_block blk s))
              (accumulated s
               @ additions blk M (length (connected_dof_indices s1)) (qp_jacobian_value t s1))
              M (if M = 0 then idx_j s else length (connected_dof_indices s1)) s)"
  using assms
  by (simp add: double_loop_connected same_inputs_fields same_inputs_qp_jacobian_value)

lemma phase_phi_master:
  assumes "same_inputs s1 s" "formulation s1 = KINEMATIC \<or> formulation s1 = PENALTY"
  shows "for_loop set_i M
           (\<lambda>s. for_loop set_j (length (phi_master s))
                   (add_to_block blk (computeQpJacobian t)) s) s
     = Inr (loop_state blk
              (apply_additions
                 (additions blk M (length (phi_master s1)) (qp_jacobian_value t s1))
                 blk (get_block blk s))
              (accumulated s
               @ additions blk M (length (phi_master s1)) (qp_jacobian_value t s1))
              M (if M = 0 then idx_j s else length (phi_master s1)) s)"
  using assms
  by (simp add: double_loop_phi_master same_inputs_fields same_inputs_qp_jacobian_value)

lemma phase_offdiag_connected:
  assumes "same_inputs s1 s" "formulation s1 = KINEMATIC \<or> formulation s1 = PENALTY"
  shows "for_loop set_i M
           (\<lambda>s. for_loop set_j (length (connected_dof_indices s))
                   (add_to_block blk (computeQpOffDiagJacobian t jvar)) s) s
     = Inr (loop_state blk
              (apply_additions
                 (additions blk M (length (connected_dof_indices s1))
                    (qp_offdiag_value t jvar s1))
                 blk (get_block blk s))
              (accumulated s
               @ additions blk M (length (connected_dof_indices s1))
                   (qp_offdiag_value t jvar s1))
              M (if M = 0 then idx_j s else length (connected_dof_indices s1)) s)"
  using assms
  by (simp add: double_loop_offdiag_connected same_inputs_fields same_inputs_qp_offdiag_value)

lemma phase_offdiag_phi_master:
  assumes "same_inputs s1 s" "formulation s1 = KINEMATIC \<or> formulation s1 = PENALTY"
  shows "for_loop set_i M
           (\<lambda>s. for_loop set_j (length (phi_master s))
                   (add_to_block blk (computeQpOffDiagJacobian t jvar)) s) s
     = Inr (loop_state blk
              (apply_additions
                 (additions blk M (length (phi_master s1)) (qp_offdiag_value t jvar s1))
                 blk (get_block blk s))
              (accumulated s
               @ additions blk M (length (phi_master s1)) (qp_offdiag_value t jvar s1))
              M (if M = 0 then idx_j s else length (phi_master s1)) s)"
  using assms
  by (simp add: double_loop_offdiag_phi_master same_inputs_fields same_inputs_qp_offdiag_value)

lemma computeJacobian_result:
  assumes valid: "formulation s = KINEMATIC \<or> formulation s = PENALTY"
  defines "s1 \<equiv> getConnectedDofIndices (var_number s) s"
  defines "Ken \<equiv> NeighborBlock ElementNeighbor (var_number s) (var_number s)"
  defines "Knn \<equiv> NeighborBlock NeighborNeighbor (master_var_number s) (var_number s)"
  defines "new \<equiv>
     additions KeeBlock (length (test_slave s)) (length (connected_dof_indices s1))
       (qp_jacobian_value SlaveSlave s1)
     @ (if dm_m (get_block Ken s) \<noteq> 0 \<and> dm_n (get_block Ken s) \<noteq> 0
        then additions Ken (length (test_slave s)) (length (phi_master s))
               (qp_jacobian_value SlaveMaster s1)
        else [])
     @ additions KneBlock (length (test_master s)) (length (connected_dof_indices s1))
         (qp_jacobian_value MasterSlave s1)
     @ (if dm_m (get_block Knn s) \<noteq> 0 \<and> dm_n (get_block Knn s) \<noteq> 0
        then additions Knn (length (test_master s)) (length (phi_master s))
               (qp_jacobian_value MasterMaster s1)
        else [])"
  shows "\<exists>s'. computeJacobian s = Inr s'
     \<and> accumulated s' = accumulated s @ new
     \<and> (\<forall>blk. get_block blk s' =
           apply_additions new blk
             (case blk of
                KeeBlock \<Rightarrow>
                  dm_resize (length (test_slave s)) (length (connected_dof_indices s1)) (Kee s)
              | KneBlock \<Rightarrow>
                  dm_resize (length (test_master s)) (length (connected_dof_indices s1)) (Kne s)
              | NeighborBlock t ivar jvar \<Rightarrow> jacobianBlockNeighbor s t ivar jvar))"
proof -
  have valid1: "formulation s1 = KINEMATIC \<or> formulation s1 = PENALTY"
    using valid by (simp add: s1_def getConnectedDofIndices_frame)
  note fr = getConnectedDofIndices_frame [where v = "var_number s" and s = s, folded s1_def]
  define s2 where "s2 =
    s1\<lparr>Kee := dm_resize (length (test_slave s1)) (length (connected_dof_indices s1)) (Kee s1)\<rparr>"
  have i2: "same_inputs s1 s2"
    unfolding s2_def set_block_Kee by (rule same_inputs_set_block)
  define r1 where "r1 =
    loop_state KeeBlock
      (apply_additions
         (additions KeeBlock (length (test_slave s2)) (length (connected_dof_indices s1))
            (qp_jacobian_value SlaveSlave s1))
         KeeBlock (get_block KeeBlock s2))
      (accumulated s2
       @ additions KeeBlock (length (test_slave s2)) (length (connected_dof_indices s1))
           (qp_jacobian_value SlaveSlave s1))
      (length (test_slave s2))
      (if length (test_slave s2) = 0 then idx_j s2 else length (connected_dof_indices s1)) s2"
  have p1: "for_loop set_i (length (test_slave s2))
              (\<lambda>s. for_loop set_j (length (connected_dof_indices s))
                      (add_to_block KeeBlock (computeQpJacobian SlaveSlave)) s) s2 = Inr r1"
    unfolding r1_def by (rule phase_connected [OF i2 valid1])
  have i_r1: "same_inputs s1 r1"
    unfolding r1_def by (rule same_inputs_trans [OF i2 same_inputs_loop_state])
  define Ken1 where "Ken1 = NeighborBlock ElementNeighbor (var_number r1) (var_number r1)"
  define r2 where "r2 =
    (if dm_m (get_block Ken1 r1) \<noteq> 0 \<and> dm_n (get_block Ken1 r1) \<noteq> 0
     then loop_state Ken1
            (apply_additions
               (additions Ken1 (length (test_slave r1)) (length (phi_master s1))
                  (qp_jacobian_value SlaveMaster s1))
               Ken1 (get_block Ken1 r1))
            (accumulated r1
             @ additions Ken1 (length (test_slave r1)) (length (phi_master s1))
                 (qp_jacobian_value SlaveMaster s1))
            (length (test_slave r1))
            (if length (test_slave r1) = 0 then idx_j r1 else length (phi_master s1)) r1
     else r1)"
  have p2: "(if dm_m (get_block Ken1 r1) \<noteq> 0 \<and> dm_n (get_block Ken1 r1) \<noteq> 0
             then for_loop set_i (length (test_slave r1))
                    (\<lambda>s. for_loop set_j (length (phi_master s))
                            (add_to_block Ken1 (computeQpJacobian SlaveMaster)) s) r1
             else Inr r1) = Inr r2"
    unfolding r2_def by (simp only: phase_phi_master [OF i_r1 valid1] if_distrib [of Inr] )
  have i_r2: "same_inputs s1 r2"
    unfolding r2_def
    by (intro same_inputs_if same_inputs_trans [OF i_r1 same_inputs_loop_state] i_r1)
  define s5 where "s5 =
    r2\<lparr>Kne := dm_resize (length (test_master r2)) (length (connected_dof_indices r2)) (Kne r2)\<rparr>"
  have i5: "same_inputs s1 s5"
    unfolding s5_def set_block_Kne by (rule same_inputs_trans [OF i_r2 same_inputs_set_block])
  define r3 where "r3 =
    loop_state KneBlock
      (apply_additions
         (additions KneBlock (length (test_master s5)) (length (connected_dof_indices s1))
            (qp_jacobian_value MasterSlave s1))
         KneBlock (get_block KneBlock s5))
      (accumulated s5
       @ additions KneBlock (length (test_master s5)) (length (connected_dof_indices s1))
           (qp_jacobian_value MasterSlave s1))
      (length (test_master s5))
      (if length (test_master s5) = 0 then idx_j s5 else length (connected_dof_indices s1)) s5"
  have p3: "for_loop set_i (length (test_master s5))
              (\<lambda>s. for_loop set_j (length (connected_dof_indices s))
                      (add_to_block KneBlock (computeQpJacobian MasterSlave)) s) s5 = Inr r3"
    unfolding r3_def by (rule phase_connected [OF i5 valid1])
  have i_r3: "same_inputs s1 r3"
    unfolding r3_def by (rule same_inputs_trans [OF i5 same_inputs_loop_state])
  define Knn1 where "Knn1 = NeighborBlock NeighborNeighbor (master_var_number s1) (var_number s1)"
  define r4 where "r4 =
    (if dm_m (get_block Knn1 r3) \<noteq> 0 \<and> dm_n (get_block Knn1 r3) \<noteq> 0
     then loop_state Knn1
            (apply_additions
               (additions Knn1 (length (test_master r3)) (length (phi_master s1))
                  (qp_jacobian_value MasterMaster s1))
               Knn1 (get_block Knn1 r3))
            (accumulated r3
             @ additions Knn1 (length (test_master r3)) (length (phi_master s1))
                 (qp_jacobian_value MasterMaster s1))
            (length (test_master r3))
            (if length (test_master r3) = 0 then idx_j r3 else length (phi_master s1)) r3
     else r3)"
  have p4: "(if dm_m (get_block Knn1 r3) \<noteq> 0 \<and> dm_n (get_block Knn1 r3) \<noteq> 0
             then for_loop set_i (length (test_master r3))
                    (\<lambda>s. for_loop set_j (length (phi_master s))
                            (add_to_block Knn1 (computeQpJacobian MasterMaster)) s) r3
             else Inr r3) = Inr r4"
    unfolding r4_def by (simp only: phase_phi_master [OF i_r3 valid1] if_distrib [of Inr])
  have run: "computeJacobian s = Inr r4"
    unfolding computeJacobian_def Let_def
    apply (simp only: s1_def [symmetric])
    apply (simp only: s2_def [symmetric])
    apply (simp only: p1 sum.case)
    apply (simp only: Ken1_def [symmetric])
    apply (simp only: p2 sum.case)
    apply (simp only: s5_def [symmetric])
    apply (simp only: p3 sum.case)
    apply (simp only: Knn1_def [symmetric])
    apply (simp only: p4)
    done
  have ts: "test_slave s2 = test_slave s" "test_slave r1 = test_slave s"
    "test_master s5 = test_master s" "test_master r3 = test_master s"
    "phi_master s1 = phi_master s" "connected_dof_indices r2 = connected_dof_indices s1"
    using same_inputs_fields [OF i2] same_inputs_fields [OF i_r1] same_inputs_fields [OF i5]
      same_inputs_fields [OF i_r3] same_inputs_fields [OF i_r2] fr
    by simp_all
  have Ken1: "Ken1 = Ken"
    using same_inputs_fields [OF i_r1] fr by (simp add: Ken1_def Ken_def)
  have Knn1: "Knn1 = Knn"
    using fr by (simp add: Knn1_def Knn_def)
  have neq: "Ken \<noteq> KeeBlock" "Ken \<noteq> KneBlock" "Knn \<noteq> KeeBlock" "Knn \<noteq> KneBlock"
    "Ken \<noteq> Knn" "Knn \<noteq> Ken"
    by (simp_all add: Ken_def Knn_def)
  define add1 where "add1 =
    additions KeeBlock (length (test_slave s)) (length (connected_dof_indices s1))
      (qp_jacobian_value SlaveSlave s1)"
  define add2 where "add2 =
    additions Ken (length (test_slave s)) (length (phi_master s))
      (qp_jacobian_value SlaveMaster s1)"
  define add3 where "add3 =
    additions KneBlock (length (test_master s)) (length (connected_dof_indices s1))
      (qp_jacobian_value MasterSlave s1)"
  define add4 where "add4 =
    additions Knn (length (test_master s)) (length (phi_master s))
      (qp_jacobian_value MasterMaster s1)"
  define g1 where "g1 \<longleftrightarrow> dm_m (get_block Ken s) \<noteq> 0 \<and> dm_n (get_block Ken s) \<noteq> 0"
  define g2 where "g2 \<longleftrightarrow> dm_m (get_block Knn s) \<noteq> 0 \<and> dm_n (get_block Knn s) \<noteq> 0"
  define R1 where "R1 =
    dm_resize (length (test_slave s)) (length (connected_dof_indices s1)) (Kee s)"
  define R2 where "R2 =
    dm_resize (length (test_master s)) (length (connected_dof_indices s1)) (Kne s)"
  have new: "new = add1 @ (if g1 then add2 else []) @ add3 @ (if g2 then add4 else [])"
    by (simp add: new_def add1_def add2_def add3_def add4_def g1_def g2_def)
  have s2: "s2 = set_block KeeBlock R1 s1"
    using fr(8) [of KeeBlock] by (simp add: s2_def set_block_Kee R1_def fr get_block_def)
  have acc1: "accumulated r1 = accumulated s @ add1"
    by (simp add: r1_def loop_state_fields s2 accumulated_set_block set_block_input_fields fr
          add1_def)
  have blk1: "get_block blk r1
      = (if blk = KeeBlock then apply_additions add1 KeeBlock R1 else get_block blk s)" for blk
    by (simp add: r1_def get_block_loop_state s2 get_block_set_block set_block_input_fields fr
          add1_def)
  have acc2: "accumulated r2 = accumulated s @ add1 @ (if g1 then add2 else [])"
    by (simp add: r2_def Ken1 blk1 neq loop_state_fields ts acc1 add2_def g1_def)
  have blk2: "get_block blk r2
      = (if blk = KeeBlock then apply_additions add1 KeeBlock R1
         else if blk = Ken \<and> g1 then apply_additions add2 Ken (get_block Ken s)
         else get_block blk s)" for blk
    using neq
    by (simp add: r2_def Ken1 blk1 get_block_loop_state ts add2_def g1_def)
  have tm2: "test_master r2 = test_master s"
    using same_inputs_fields [OF i_r2] fr by simp
  have s5: "s5 = set_block KneBlock R2 r2"
    using blk2 [of KneBlock] neq
    by (simp add: s5_def set_block_Kne R2_def ts same_inputs_fields [OF i_r2] fr get_block_def)
  have acc3: "accumulated r3 = accumulated s @ add1 @ (if g1 then add2 else []) @ add3"
    by (simp add: r3_def loop_state_fields s5 accumulated_set_block set_block_input_fields tm2
          acc2 add3_def)
  have blk3: "get_block blk r3
      = (if blk = KneBlock then apply_additions add3 KneBlock R2
         else if blk = KeeBlock then apply_additions add1 KeeBlock R1
         else if blk = Ken \<and> g1 then apply_additions add2 Ken (get_block Ken s)
         else get_block blk s)" for blk
    by (simp add: r3_def get_block_loop_state s5 get_block_set_block set_block_input_fields tm2
          blk2 add3_def)
  have acc4: "accumulated r4 = accumulated s @ new"
    using neq
    by (simp add: r4_def Knn1 blk3 loop_state_fields ts acc3 add4_def g2_def new)
  have blk4: "get_block blk r4
      = (if blk = Knn \<and> g2 then apply_additions add4 Knn (get_block Knn s)
         else if blk = KneBlock then apply_additions add3 KneBlock R2
         else if blk = KeeBlock then apply_additions add1 KeeBlock R1
         else if blk = Ken \<and> g1 then apply_additions add2 Ken (get_block Ken s)
         else get_block blk s)" for blk
    using neq
    by (simp add: r4_def Knn1 blk3 get_block_loop_state ts add4_def g2_def)
  have app: "apply_additions new blk A
      = (if blk = Knn \<and> g2 then apply_additions add4 Knn A
         else if blk = KneBlock then apply_additions add3 KneBlock A
         else if blk = KeeBlock then apply_additions add1 KeeBlock A
         else if blk = Ken \<and> g1 then apply_additions add2 Ken A
         else A)" for blk A
    using neq
    by (simp add: new apply_additions_append apply_additions_Nil apply_additions_other
          add1_def add2_def add3_def add4_def)
  have blocks: "get_block blk r4 =
           apply_additions new blk
             (case blk of
                KeeBlock \<Rightarrow>
                  dm_resize (length (test_slave s)) (length (connected_dof_indices s1)) (Kee s)
              | KneBlock \<Rightarrow>
                  dm_resize (length (test_master s)) (length (connected_dof_indices s1)) (Kne s)
              | NeighborBlock t ivar jvar \<Rightarrow> jacobianBlockNeighbor s t ivar jvar)" for blk
  proof -
    have "get_block blk r4
        = apply_additions new blk
            (if blk = KeeBlock then R1 else if blk = KneBlock then R2 else get_block blk s)"
      using neq by (simp add: blk4 app)
    moreover have "(if blk = KeeBlock then R1 else if blk = KneBlock then R2
                    else get_block blk s)
        = (case blk of
                KeeBlock \<Rightarrow>
                  dm_resize (length (test_slave s)) (length (connected_dof_indices s1)) (Kee s)
              | KneBlock \<Rightarrow>
                  dm_resize (length (test_master s)) (length (connected_dof_indices s1)) (Kne s)
              | NeighborBlock t ivar jvar \<Rightarrow> jacobianBlockNeighbor s t ivar jvar)"
      by (cases blk) (simp_all add: R1_def R2_def get_block_def)
    ultimately show ?thesis by simp
  qed
  show ?thesis
    using run acc4 blocks by blast
qed

lemma dm_resize_dims: "dm_m (dm_resize m n A) = m" "dm_n (dm_resize m n A) = n"
  by (simp_all add: dm_resize_def dm_zero_def)

lemma computeOffDiagJacobian_result:
  fixes jvar :: nat
  assumes valid: "formulation s = KINEMATIC \<or> formulation s = PENALTY"
  defines "s1 \<equiv> getConnectedDofIndices jvar s"
  defines "Ken \<equiv> NeighborBlock ElementNeighbor (var_number s) jvar"
  defines "Knn \<equiv> NeighborBlock NeighborNeighbor (master_var_number s) jvar"
  defines "new \<equiv>
     additions KeeBlock (length (test_slave s)) (length (connected_dof_indices s1))
       (qp_offdiag_value SlaveSlave jvar s1)
     @ additions Ken (length (test_slave s)) (length (phi_master s))
         (qp_offdiag_value SlaveMaster jvar s1)
     @ (if length (test_master s) \<noteq> 0 \<and> length (connected_dof_indices s1) \<noteq> 0
        then additions KneBlock (length (test_master s)) (length (connected_dof_indices s1))
               (qp_offdiag_value MasterSlave jvar s1)
        else [])
     @ additions Knn (length (test_master s)) (length (phi_master s))
         (qp_offdiag_value MasterMaster jvar s1)"
  shows "\<exists>s'. computeOffDiagJacobian jvar s = Inr s'
     \<and> accumulated s' = accumulated s @ new
     \<and> (\<forall>blk. get_block blk s' =
           apply_additions new blk
             (case blk of
                KeeBlock \<Rightarrow>
                  dm_resize (length (test_slave s)) (length (connected_dof_indices s1)) (Kee s)
              | KneBlock \<Rightarrow>
                  dm_resize (length (test_master s)) (length (connected_dof_indices s1)) (Kne s)
              | NeighborBlock t iv jv \<Rightarrow> jacobianBlockNeighbor s t iv jv))"
proof -
  have valid1: "formulation s1 = KINEMATIC \<or> formulation s1 = PENALTY"
    using valid by (simp add: s1_def getConnectedDofIndices_frame)
  note fr = getConnectedDofIndices_frame [where v = jvar and s = s, folded s1_def]
  define s2 where "s2 =
    s1\<lparr>Kee := dm_resize (length (test_slave s1)) (length (connected_dof_indices s1)) (Kee s1)\<rparr>"
  have i2: "same_inputs s1 s2"
    unfolding s2_def set_block_Kee by (rule same_inputs_set_block)
  define r1 where "r1 =
    loop_state KeeBlock
      (apply_additions
         (additions KeeBlock (length (test_slave s2)) (length (connected_dof_indices s1))
            (qp_offdiag_value SlaveSlave jvar s1))
         KeeBlock (get_block KeeBlock s2))
      (accumulated s2
       @ additions KeeBlock (length (test_slave s2)) (length (connected_dof_indices s1))
           (qp_offdiag_value SlaveSlave jvar s1))
      (length (test_slave s2))
      (if length (test_slave s2) = 0 then idx_j s2 else length (connected_dof_indices s1)) s2"
  have p1: "for_loop set_i (length (test_slave s2))
              (\<lambda>s. for_loop set_j (length (connected_dof_indices s))
                      (add_to_block KeeBlock (computeQpOffDiagJacobian SlaveSlave jvar)) s) s2
            = Inr r1"
    unfolding r1_def by (rule phase_offdiag_connected [OF i2 valid1])
  have i_r1: "same_inputs s1 r1"
    unfolding r1_def by (rule same_inputs_trans [OF i2 same_inputs_loop_state])
  define Ken1 where "Ken1 = NeighborBlock ElementNeighbor (var_number r1) jvar"
  define r2 where "r2 =
    loop_state Ken1
      (apply_additions
         (additions Ken1 (length (test_slave r1)) (length (phi_master s1))
            (qp_offdiag_value SlaveMaster jvar s1))
         Ken1 (get_block Ken1 r1))
      (accumulated r1
       @ additions Ken1 (length (test_slave r1)) (length (phi_master s1))
           (qp_offdiag_value SlaveMaster jvar s1))
      (length (test_slave r1))
      (if length (test_slave r1) = 0 then idx_j r1 else length (phi_master s1)) r1"
  have p2: "for_loop set_i (length (test_slave r1))
              (\<lambda>s. for_loop set_j (length (phi_master s))
                      (add_to_block Ken1 (computeQpOffDiagJacobian SlaveMaster jvar)) s) r1
            = Inr r2"
    unfolding r2_def by (rule phase_offdiag_phi_master [OF i_r1 valid1])
  have i_r2: "same_inputs s1 r2"
    unfolding r2_def by (rule same_inputs_trans [OF i_r1 same_inputs_loop_state])
  define s5 where "s5 =
    r2\<lparr>Kne := dm_resize (length (test_master r2)) (length (connected_dof_indices r2)) (Kne r2)\<rparr>"
  have i5: "same_inputs s1 s5"
    unfolding s5_def set_block_Kne by (rule same_inputs_trans [OF i_r2 same_inputs_set_block])
  define r3 where "r3 =
    (if dm_m (Kne s5) \<noteq> 0 \<and> dm_n (Kne s5) \<noteq> 0
     then loop_state KneBlock
            (apply_additions
               (additions KneBlock (length (test_master s5)) (length (connected_dof_indices s1))
                  (qp_offdiag_value MasterSlave jvar s1))
               KneBlock (get_block KneBlock s5))
            (accumulated s5
             @ additions KneBlock (length (test_master s5)) (length (connected_dof_indices s1))
                 (qp_offdiag_value MasterSlave jvar s1))
            (length (test_master s5))
            (if length (test_master s5) = 0 then idx_j s5
             else length (connected_dof_indices s1)) s5
     else s5)"
  have p3: "(if dm_m (Kne s5) \<noteq> 0 \<and> dm_n (Kne s5) \<noteq> 0
             then for_loop set_i (length (test_master s5))
                    (\<lambda>s. for_loop set_j (length (connected_dof_indices s))
                            (add_to_block KneBlock (computeQpOffDiagJacobian MasterSlave jvar))
                            s) s5
             else Inr s5) = Inr r3"
    unfolding r3_def
    by (simp only: phase_offdiag_connected [OF i5 valid1] if_distrib [of Inr])
  have i_r3: "same_inputs s1 r3"
    unfolding r3_def
    by (intro same_inputs_if same_inputs_trans [OF i5 same_inputs_loop_state] i5)
  define Knn1 where "Knn1 = NeighborBlock NeighborNeighbor (master_var_number s2) jvar"
  define r4 where "r4 =
    loop_state Knn1
      (apply_additions
         (additions Knn1 (length (test_master r3)) (length (phi_master s1))
            (qp_offdiag_value MasterMaster jvar s1))
         Knn1 (get_block Knn1 r3))
      (accumulated r3
       @ additions Knn1 (length (test_master r3)) (length (phi_master s1))
           (qp_offdiag_value MasterMaster jvar s1))
      (length (test_master r3))
      (if length (test_master r3) = 0 then idx_j r3 else length (phi_master s1)) r3"
  have p4: "for_loop set_i (length (test_master r3))
              (\<lambda>s. for_loop set_j (length (phi_master s))
                      (add_to_block Knn1 (computeQpOffDiagJacobian MasterMaster jvar)) s) r3
            = Inr r4"
    unfolding r4_def by (rule phase_offdiag_phi_master [OF i_r3 valid1])
  have run: "computeOffDiagJacobian jvar s = Inr r4"
    unfolding computeOffDiagJacobian_def Let_def
    apply (simp only: s1_def [symmetric])
    apply (simp only: s2_def [symmetric])
    apply (simp only: p1 sum.case)
    apply (simp only: Ken1_def [symmetric])
    apply (simp only: p2 sum.case)
    apply (simp only: s5_def [symmetric])
    apply (simp only: p3 sum.case)
    apply (simp only: Knn1_def [symmetric])
    apply (simp only: p4)
    done
  have Ken1: "Ken1 = Ken"
    using same_inputs_fields [OF i_r1] fr by (simp add: Ken1_def Ken_def)
  have Knn1: "Knn1 = Knn"
    using same_inputs_fields [OF i2] fr by (simp add: Knn1_def Knn_def)
  have neq: "Ken \<noteq> KeeBlock" "Ken \<noteq> KneBlock" "Knn \<noteq> KeeBlock" "Knn \<noteq> KneBlock"
    "Ken \<noteq> Knn" "Knn \<noteq> Ken"
    by (simp_all add: Ken_def Knn_def)
  have ts: "test_slave r1 = test_slave s" "test_master r3 = test_master s"
    "phi_master s1 = phi_master s" "connected_dof_indices r2 = connected_dof_indices s1"
    "test_master r2 = test_master s"
    using same_inputs_fields [OF i_r1] same_inputs_fields [OF i_r3] same_inputs_fields [OF i_r2] fr
    by simp_all
  define add1 where "add1 =
    additions KeeBlock (length (test_slave s)) (length (connected_dof_indices s1))
      (qp_offdiag_value SlaveSlave jvar s1)"
  define add2 where "add2 =
    additions Ken (length (test_slave s)) (length (phi_master s))
      (qp_offdiag_value SlaveMaster jvar s1)"
  define add3 where "add3 =
    additions KneBlock (length (test_master s)) (length (connected_dof_indices s1))
      (qp_offdiag_value MasterSlave jvar s1)"
  define add4 where "add4 =
    additions Knn (length (test_master s)) (length (phi_master s))
      (qp_offdiag_value MasterMaster jvar s1)"
  define g3 where
    "g3 \<longleftrightarrow> length (test_master s) \<noteq> 0 \<and> length (connected_dof_indices s1) \<noteq> 0"
  define R1 where "R1 =
    dm_resize (length (test_slave s)) (length (connected_dof_indices s1)) (Kee s)"
  define R2 where "R2 =
    dm_resize (length (test_master s)) (length (connected_dof_indices s1)) (Kne s)"
  have new: "new = add1 @ add2 @ (if g3 then add3 else []) @ add4"
    by (simp add: new_def add1_def add2_def add3_def add4_def g3_def)
  have s2: "s2 = set_block KeeBlock R1 s1"
    using fr(8) [of KeeBlock] by (simp add: s2_def set_block_Kee R1_def fr get_block_def)
  have acc1: "accumulated r1 = accumulated s @ add1"
    by (simp add: r1_def loop_state_fields s2 accumulated_set_block set_block_input_fields fr
          add1_def)
  have blk1: "get_block blk r1
      = (if blk = KeeBlock then apply_additions add1 KeeBlock R1 else get_block blk s)" for blk
    by (simp add: r1_def get_block_loop_state s2 get_block_set_block set_block_input_fields fr
          add1_def)
  have acc2: "accumulated r2 = accumulated s @ add1 @ add2"
    by (simp add: r2_def Ken1 loop_state_fields ts acc1 add2_def)
  have blk2: "get_block blk r2
      = (if blk = Ken then apply_additions add2 Ken (get_block Ken s)
         else if blk = KeeBlock then apply_additions add1 KeeBlock R1
         else get_block blk s)" for blk
    using neq by (simp add: r2_def Ken1 blk1 get_block_loop_state ts add2_def)
  have s5: "s5 = set_block KneBlock R2 r2"
    using blk2 [of KneBlock] neq
    by (simp add: s5_def set_block_Kne R2_def ts get_block_def)
  have g3: "(dm_m (Kne s5) \<noteq> 0 \<and> dm_n (Kne s5) \<noteq> 0) = g3"
    using get_block_set_block [of KneBlock KneBlock R2 r2]
    by (simp add: s5 get_block_def R2_def dm_resize_dims g3_def)
  have acc3: "accumulated r3 = accumulated s @ add1 @ add2 @ (if g3 then add3 else [])"
    unfolding r3_def g3
    by (simp add: loop_state_fields s5 accumulated_set_block set_block_input_fields ts
          acc2 add3_def)
  have blk3: "get_block blk r3
      = (if blk = KneBlock then (if g3 then apply_additions add3 KneBlock R2 else R2)
         else if blk = Ken then apply_additions add2 Ken (get_block Ken s)
         else if blk = KeeBlock then apply_additions add1 KeeBlock R1
         else get_block blk s)" for blk
    unfolding r3_def g3
    by (simp add: get_block_loop_state s5 get_block_set_block set_block_input_fields ts
          blk2 add3_def)
  have acc4: "accumulated r4 = accumulated s @ new"
    by (simp add: r4_def Knn1 loop_state_fields ts acc3 add4_def new)
  have blk4: "get_block blk r4
      = (if blk = Knn then apply_additions add4 Knn (get_block Knn s)
         else if blk = KneBlock then (if g3 then apply_additions add3 KneBlock R2 else R2)
         else if blk = Ken then apply_additions add2 Ken (get_block Ken s)
         else if blk = KeeBlock then apply_additions add1 KeeBlock R1
         else get_block blk s)" for blk
    using neq by (simp add: r4_def Knn1 blk3 get_block_loop_state ts add4_def)
  have app: "apply_additions new blk A
      = (if blk = Knn then apply_additions add4 Knn A
         else if blk = KneBlock then (if g3 then apply_additions add3 KneBlock A else A)
         else if blk = Ken then apply_additions add2 Ken A
         else if blk = KeeBlock then apply_additions add1 KeeBlock A
         else A)" for blk A
    using neq
    by (simp add: new apply_additions_append apply_additions_Nil apply_additions_other
          add1_def add2_def add3_def add4_def)
  have blocks: "get_block blk r4 =
           apply_additions new blk
             (case blk of
                KeeBlock \<Rightarrow>
                  dm_resize (length (test_slave s)) (length (connected_dof_indices s1)) (Kee s)
              | KneBlock \<Rightarrow>
                  dm_resize (length (test_master s)) (length (connected_dof_indices s1)) (Kne s)
              | NeighborBlock t iv jv \<Rightarrow> jacobianBlockNeighbor s t iv jv)" for blk
  proof -
    have "get_block blk r4
        = apply_additions new blk
            (if blk = KeeBlock then R1 else if blk = KneBlock then R2 else get_block blk s)"
      using neq by (simp add: blk4 app)
    moreover have "(if blk = KeeBlock then R1 else if blk = KneBlock then R2
                    else get_block blk s)
        = (case blk of
                KeeBlock \<Rightarrow>
                  dm_resize (length (test_slave s)) (length (connected_dof_indices s1)) (Kee s)
              | KneBlock \<Rightarrow>
                  dm_resize (length (test_master s)) (length (connected_dof_indices s1)) (Kne s)
              | NeighborBlock t iv jv \<Rightarrow> jacobianBlockNeighbor s t iv jv)"
      by (cases blk) (simp_all add: R1_def R2_def get_block_def)
    ultimately show ?thesis by simp
  qed
  show ?thesis
    using run acc4 blocks by blast
qed

lemma dm_add_frame:
  "dm_n (dm_add A i j v) = dm_n A" "dm_m (dm_add A i j v) = dm_m A"
  "length (dm_val (dm_add A i j v)) = length (dm_val A)"
  by (simp_all add: dm_add_def)

lemma index_eq_iff:
  fixes n :: nat
  assumes "j < n" "j' < n"
  shows "i' * n + j' = i * n + j \<longleftrightarrow> i' = i \<and> j' = j"
proof
  assume e: "i' * n + j' = i * n + j"
  have "(i' * n + j') div n = i'" "(i * n + j) div n = i"
    using assms by simp_all
  with e have "i' = i" by simp
  with e show "i' = i \<and> j' = j" by simp
qed simp

lemma dm_get_dm_add:
  assumes "j < dm_n A" "j' < dm_n A" "i * dm_n A + j < length (dm_val A)"
  shows "dm_get (dm_add A i' j' v) i j
     = (if i' = i \<and> j' = j then dm_get A i j + v else dm_get A i j)"
  using assms index_eq_iff [of j "dm_n A" j' i' i]
  by (auto simp: dm_get_def dm_add_def nth_list_update)

lemma fold_row_frame:
  "dm_n (fold (\<lambda>j A. dm_add A i j (v j)) js A) = dm_n A"
  "length (dm_val (fold (\<lambda>j A. dm_add A i j (v j)) js A)) = length (dm_val A)"
  by (induction js arbitrary: A) (simp_all add: dm_add_frame)

lemma dm_get_fold_row:
  assumes "N \<le> dm_n A" "j < dm_n A" "i * dm_n A + j < length (dm_val A)"
  shows "dm_get (fold (\<lambda>j A. dm_add A i' j (v j)) [0..<N] A) i j
     = (if i' = i \<and> j < N then dm_get A i j + v j else dm_get A i j)"
  using assms(1)
proof (induction N)
  case 0
  then show ?case by simp
next
  case (Suc N)
  define B where "B = fold (\<lambda>j A. dm_add A i' j (v j)) [0..<N] A"
  have N: "N < dm_n A" "N \<le> dm_n A" using Suc.prems by simp_all
  have B: "dm_n B = dm_n A" "length (dm_val B) = length (dm_val A)"
    by (simp_all add: B_def fold_row_frame)
  have ih: "dm_get B i j = (if i' = i \<and> j < N then dm_get A i j + v j else dm_get A i j)"
    unfolding B_def by (rule Suc.IH [OF N(2)])
  have "dm_get (dm_add B i' N (v N)) i j
      = (if i' = i \<and> N = j then dm_get B i j + v N else dm_get B i j)"
    using assms(2,3) N(1) by (intro dm_get_dm_add) (simp_all add: B)
  then have "dm_get (dm_add B i' N (v N)) i j
      = (if i' = i \<and> j < Suc N then dm_get A i j + v j else dm_get A i j)"
    unfolding ih by (auto simp: less_Suc_eq)
  then show ?case by (simp add: B_def)
qed

lemma fold_rows_frame:
  "dm_n (fold (\<lambda>i A. fold (\<lambda>j A. dm_add A i j (v i j)) js A) is A) = dm_n A"
  "length (dm_val (fold (\<lambda>i A. fold (\<lambda>j A. dm_add A i j (v i j)) js A) is A))
     = length (dm_val A)"
  by (induction "is" arbitrary: A) (simp_all add: fold_row_frame)

lemma dm_get_fold_rows:
  assumes "N \<le> dm_n A" "j < dm_n A" "i * dm_n A + j < length (dm_val A)"
  shows "dm_get (fold (\<lambda>i A. fold (\<lambda>j A. dm_add A i j (v i j)) [0..<N] A) [0..<M] A) i j
     = (if i < M \<and> j < N then dm_get A i j + v i j else dm_get A i j)"
proof (induction M)
  case 0
  then show ?case by simp
next
  case (Suc M)
  define B where
    "B = fold (\<lambda>i A. fold (\<lambda>j A. dm_add A i j (v i j)) [0..<N] A) [0..<M] A"
  have B: "dm_n B = dm_n A" "length (dm_val B) = length (dm_val A)"
    by (simp_all add: B_def fold_rows_frame)
  have ih: "dm_get B i j = (if i < M \<and> j < N then dm_get A i j + v i j else dm_get A i j)"
    unfolding B_def by (rule Suc.IH)
  have "dm_get (fold (\<lambda>j A. dm_add A M j (v M j)) [0..<N] B) i j
      = (if M = i \<and> j < N then dm_get B i j + v M j else dm_get B i j)"
    using assms by (intro dm_get_fold_row) (simp_all add: B)
  then have "dm_get (fold (\<lambda>j A. dm_add A M j (v M j)) [0..<N] B) i j
      = (if i < Suc M \<and> j < N then dm_get A i j + v i j else dm_get A i j)"
    unfolding ih by (auto simp: less_Suc_eq)
  then show ?case by (simp add: B_def)
qed

lemma dm_get_apply_additions:
  assumes "N \<le> dm_n A" "M \<le> dm_m A" "length (dm_val A) = dm_m A * dm_n A" "i < M" "j < N"
  shows "dm_get (apply_additions (additions blk M N v) blk A) i j = dm_get A i j + v i j"
proof -
  have "i * dm_n A + j < dm_m A * dm_n A"
  proof -
    have "i * dm_n A + j < i * dm_n A + dm_n A" using assms by simp
    also have "\<dots> = Suc i * dm_n A" by simp
    also have "\<dots> \<le> dm_m A * dm_n A" using assms by (intro mult_le_mono1) simp
    finally show ?thesis .
  qed
  then show ?thesis
    using assms by (simp add: apply_additions_same dm_get_fold_rows)
qed

lemma dm_get_resize:
  "i < m \<Longrightarrow> j < n \<Longrightarrow> dm_get (dm_resize m n A) i j = 0"
proof -
  assume a: "i < m" "j < n"
  have "i * n + j < i * n + n" using a by simp
  also have "\<dots> = Suc i * n" by simp
  also have "\<dots> \<le> m * n" using a by (intro mult_le_mono1) simp
  finally show ?thesis
    by (simp add: dm_get_def dm_resize_def dm_zero_def vec_resize_def)
qed

lemma dm_resize_wf: "length (dm_val (dm_resize m n A)) = m * n"
  by (simp add: dm_resize_def dm_zero_def vec_resize_def)

lemma dm_get_apply_additions_resize:
  assumes "i < M" "j < N"
  shows "dm_get (apply_additions (additions blk M N v) blk (dm_resize M N A)) i j = 0 + v i j"
  using assms
  by (simp add: dm_get_apply_additions dm_resize_dims dm_resize_wf dm_get_resize)

lemma qp_offdiag_value_zero:
  "qp_offdiag_value SlaveMaster jvar s = (\<lambda>i j. 0)"
  "qp_offdiag_value MasterMaster jvar s = (\<lambda>i j. 0)"
  by (simp_all add: qp_offdiag_value_def computeQpOffDiagJacobian_def fun_eq_iff)

lemma apply_additions_if:
  "apply_additions (if c then xs else ys) blk A
     = (if c then apply_additions xs blk A else apply_additions ys blk A)"
  by simp

lemma computeJacobian_blocks:
  assumes valid: "formulation s = KINEMATIC \<or> formulation s = PENALTY"
  defines "s1 \<equiv> getConnectedDofIndices (var_number s) s"
  defines "Ken \<equiv> NeighborBlock ElementNeighbor (var_number s) (var_number s)"
  defines "Knn \<equiv> NeighborBlock NeighborNeighbor (master_var_number s) (var_number s)"
  defines "M \<equiv> length (test_slave s)" and "Mm \<equiv> length (test_master s)"
    and "N \<equiv> length (connected_dof_indices s1)" and "P \<equiv> length (phi_master s)"
  defines "ken_used \<equiv> dm_m (get_block Ken s) \<noteq> 0 \<and> dm_n (get_block Ken s) \<noteq> 0"
  defines "knn_used \<equiv> dm_m (get_block Knn s) \<noteq> 0 \<and> dm_n (get_block Knn s) \<noteq> 0"
  shows "\<exists>s'. computeJacobian s = Inr s'
     \<and> accumulated s' =
         accumulated s
         @ additions KeeBlock M N (qp_jacobian_value SlaveSlave s1)
         @ (if ken_used then additions Ken M P (qp_jacobian_value SlaveMaster s1) else [])
         @ additions KneBlock Mm N (qp_jacobian_value MasterSlave s1)
         @ (if knn_used then additions Knn Mm P (qp_jacobian_value MasterMaster s1) else [])
     \<and> Kee s' = apply_additions (additions KeeBlock M N (qp_jacobian_value SlaveSlave s1))
                   KeeBlock (dm_resize M N (Kee s))
     \<and> Kne s' = apply_additions (additions KneBlock Mm N (qp_jacobian_value MasterSlave s1))
                   KneBlock (dm_resize Mm N (Kne s))
     \<and> get_block Ken s'
         = (if ken_used
            then apply_additions (additions Ken M P (qp_jacobian_value SlaveMaster s1)) Ken
                   (get_block Ken s)
            else get_block Ken s)
     \<and> get_block Knn s'
         = (if knn_used
            then apply_additions (additions Knn Mm P (qp_jacobian_value MasterMaster s1)) Knn
                   (get_block Knn s)
            else get_block Knn s)
     \<and> (\<forall>t iv jv. NeighborBlock t iv jv \<noteq> Ken \<and> NeighborBlock t iv jv \<noteq> Knn \<longrightarrow>
           jacobianBlockNeighbor s' t iv jv = jacobianBlockNeighbor s t iv jv)"
proof -
  have neq: "Ken \<noteq> KeeBlock" "Ken \<noteq> KneBlock" "Knn \<noteq> KeeBlock" "Knn \<noteq> KneBlock"
    "Ken \<noteq> Knn" "Knn \<noteq> Ken" "KeeBlock \<noteq> Ken" "KneBlock \<noteq> Ken" "KeeBlock \<noteq> Knn"
    "KneBlock \<noteq> Knn"
    by (simp_all add: Ken_def Knn_def)
  from computeJacobian_result [OF valid]
  obtain s' where run: "computeJacobian s = Inr s'"
    and acc: "accumulated s' =
         accumulated s
         @ additions KeeBlock M N (qp_jacobian_value SlaveSlave s1)
         @ (if ken_used then additions Ken M P (qp_jacobian_value SlaveMaster s1) else [])
         @ additions KneBlock Mm N (qp_jacobian_value MasterSlave s1)
         @ (if knn_used then additions Knn Mm P (qp_jacobian_value MasterMaster s1) else [])"
    and blk: "\<And>blk. get_block blk s' =
           apply_additions
             (additions KeeBlock M N (qp_jacobian_value SlaveSlave s1)
              @ (if ken_used then additions Ken M P (qp_jacobian_value SlaveMaster s1) else [])
              @ additions KneBlock Mm N (qp_jacobian_value MasterSlave s1)
              @ (if knn_used then additions Knn Mm P (qp_jacobian_value MasterMaster s1)
                 else []))
             blk
             (case blk of
                KeeBlock \<Rightarrow> dm_resize M N (Kee s)
              | KneBlock \<Rightarrow> dm_resize Mm N (Kne s)
              | NeighborBlock t ivar jvar \<Rightarrow> jacobianBlockNeighbor s t ivar jvar)"
    unfolding s1_def Ken_def Knn_def M_def Mm_def N_def P_def ken_used_def knn_used_def
    by blast
  have kee: "Kee s' = apply_additions (additions KeeBlock M N (qp_jacobian_value SlaveSlave s1))
                   KeeBlock (dm_resize M N (Kee s))"
    using blk [of KeeBlock] neq
    by (simp add: get_block_def apply_additions_append apply_additions_other
          apply_additions_if apply_additions_Nil)
  have kne: "Kne s' = apply_additions (additions KneBlock Mm N (qp_jacobian_value MasterSlave s1))
                   KneBlock (dm_resize Mm N (Kne s))"
    using blk [of KneBlock] neq
    by (simp add: get_block_def apply_additions_append apply_additions_other
          apply_additions_if apply_additions_Nil)
  have ken: "get_block Ken s'
         = (if ken_used
            then apply_additions (additions Ken M P (qp_jacobian_value SlaveMaster s1)) Ken
                   (get_block Ken s)
            else get_block Ken s)"
    using neq
    by (subst blk)
       (simp add: apply_additions_append apply_additions_other apply_additions_if
          apply_additions_Nil, simp add: Ken_def get_block_def)
  have knn: "get_block Knn s'
         = (if knn_used
            then apply_additions (additions Knn Mm P (qp_jacobian_value MasterMaster s1)) Knn
                   (get_block Knn s)
            else get_block Knn s)"
    using neq
    by (subst blk)
       (simp add: apply_additions_append apply_additions_other apply_additions_if
          apply_additions_Nil, simp add: Knn_def get_block_def)
  have other: "jacobianBlockNeighbor s' t iv jv = jacobianBlockNeighbor s t iv jv"
    if "NeighborBlock t iv jv \<noteq> Ken \<and> NeighborBlock t iv jv \<noteq> Knn" for t iv jv
    using blk [of "NeighborBlock t iv jv"] that
    by (simp add: get_block_def apply_additions_append apply_additions_other
          apply_additions_if apply_additions_Nil)
  show ?thesis
    using run acc kee kne ken knn other by blast
qed

lemma computeOffDiagJacobian_blocks:
  fixes jvar :: nat
  assumes valid: "formulation s = KINEMATIC \<or> formulation s = PENALTY"
  defines "s1 \<equiv> getConnectedDofIndices jvar s"
  defines "Ken \<equiv> NeighborBlock ElementNeighbor (var_number s) jvar"
  defines "Knn \<equiv> NeighborBlock NeighborNeighbor (master_var_number s) jvar"
  defines "M \<equiv> length (test_slave s)" and "Mm \<equiv> length (test_master s)"
    and "N \<equiv> length (connected_dof_indices s1)" and "P \<equiv> length (phi_master s)"
  shows "\<exists>s'. computeOffDiagJacobian jvar s = Inr s'
     \<and> accumulated s' =
         accumulated s
         @ additions KeeBlock M N (qp_offdiag_value SlaveSlave jvar s1)
         @ additions Ken M P (\<lambda>i j. 0)
         @ (if Mm \<noteq> 0 \<and> N \<noteq> 0
            then additions KneBlock Mm N (qp_offdiag_value MasterSlave jvar s1) else [])
         @ additions Knn Mm P (\<lambda>i j. 0)
     \<and> Kee s' = apply_additions (additions KeeBlock M N (qp_offdiag_value SlaveSlave jvar s1))
                   KeeBlock (dm_resize M N (Kee s))
     \<and> Kne s' = (if Mm \<noteq> 0 \<and> N \<noteq> 0
                  then apply_additions
                         (additions KneBlock Mm N (qp_offdiag_value MasterSlave jvar s1))
                         KneBlock (dm_resize Mm N (Kne s))
                  else dm_resize Mm N (Kne s))
     \<and> get_block Ken s' = apply_additions (additions Ken M P (\<lambda>i j. 0)) Ken (get_block Ken s)
     \<and> get_block Knn s' = apply_additions (additions Knn Mm P (\<lambda>i j. 0)) Knn (get_block Knn s)
     \<and> (\<forall>t iv jv. NeighborBlock t iv jv \<noteq> Ken \<and> NeighborBlock t iv jv \<noteq> Knn \<longrightarrow>
           jacobianBlockNeighbor s' t iv jv = jacobianBlockNeighbor s t iv jv)"
proof -
  have neq: "Ken \<noteq> KeeBlock" "Ken \<noteq> KneBlock" "Knn \<noteq> KeeBlock" "Knn \<noteq> KneBlock"
    "Ken \<noteq> Knn" "Knn \<noteq> Ken" "KeeBlock \<noteq> Ken" "KneBlock \<noteq> Ken" "KeeBlock \<noteq> Knn"
    "KneBlock \<noteq> Knn"
    by (simp_all add: Ken_def Knn_def)
  from computeOffDiagJacobian_result [OF valid, of jvar]
  obtain s' where run: "computeOffDiagJacobian jvar s = Inr s'"
    and acc: "accumulated s' =
         accumulated s
         @ additions KeeBlock M N (qp_offdiag_value SlaveSlave jvar s1)
         @ additions Ken M P (\<lambda>i j. 0)
         @ (if Mm \<noteq> 0 \<and> N \<noteq> 0
            then additions KneBlock Mm N (qp_offdiag_value MasterSlave jvar s1) else [])
         @ additions Knn Mm P (\<lambda>i j. 0)"
    and blk: "\<And>blk. get_block blk s' =
           apply_additions
             (additions KeeBlock M N (qp_offdiag_value SlaveSlave jvar s1)
              @ additions Ken M P (\<lambda>i j. 0)
              @ (if Mm \<noteq> 0 \<and> N \<noteq> 0
                 then additions KneBlock Mm N (qp_offdiag_value MasterSlave jvar s1) else [])
              @ additions Knn Mm P (\<lambda>i j. 0))
             blk
             (case blk of
                KeeBlock \<Rightarrow> dm_resize M N (Kee s)
              | KneBlock \<Rightarrow> dm_resize Mm N (Kne s)
              | NeighborBlock t iv jv \<Rightarrow> jacobianBlockNeighbor s t iv jv)"
    unfolding s1_def Ken_def Knn_def M_def Mm_def N_def P_def qp_offdiag_value_zero
    by blast
  have kee: "Kee s' = apply_additions (additions KeeBlock M N (qp_offdiag_value SlaveSlave jvar s1))
                   KeeBlock (dm_resize M N (Kee s))"
    using blk [of KeeBlock] neq
    by (simp add: get_block_def apply_additions_append apply_additions_other
          apply_additions_if apply_additions_Nil)
  have kne: "Kne s' = (if Mm \<noteq> 0 \<and> N \<noteq> 0
                  then apply_additions
                         (additions KneBlock Mm N (qp_offdiag_value MasterSlave jvar s1))
                         KneBlock (dm_resize Mm N (Kne s))
                  else dm_resize Mm N (Kne s))"
    using blk [of KneBlock] neq
    by (simp add: get_block_def apply_additions_append apply_additions_other
          apply_additions_if apply_additions_Nil)
  have ken: "get_block Ken s'
      = apply_additions (additions Ken M P (\<lambda>i j. 0)) Ken (get_block Ken s)"
    using neq
    by (subst blk)
       (simp add: apply_additions_append apply_additions_other apply_additions_if
          apply_additions_Nil, simp add: Ken_def get_block_def)
  have knn: "get_block Knn s'
      = apply_additions (additions Knn Mm P (\<lambda>i j. 0)) Knn (get_block Knn s)"
    using neq
    by (subst blk)
       (simp add: apply_additions_append apply_additions_other apply_additions_if
          apply_additions_Nil, simp add: Knn_def get_block_def)
  have other: "jacobianBlockNeighbor s' t iv jv = jacobianBlockNeighbor s t iv jv"
    if "NeighborBlock t iv jv \<noteq> Ken \<and> NeighborBlock t iv jv \<noteq> Knn" for t iv jv
    using blk [of "NeighborBlock t iv jv"] that
    by (simp add: get_block_def apply_additions_append apply_additions_other
          apply_additions_if apply_additions_Nil)
  show ?thesis
    using run acc kee kne ken knn other by blast
qed

lemma apply_additions_dims:
  "dm_m (apply_additions adds blk A) = dm_m A" "dm_n (apply_additions adds blk A) = dm_n A"
  by (induction adds arbitrary: A; simp add: apply_additions_def dm_add_def split: prod.splits)+

text \<open>
  C9: under one of the two formulations \<^verbatim>\<open>computeJacobian\<close> returns, and the \<^verbatim>\<open>+=\<close> it
  makes are, in order: every entry of the slave-slave block \<open>Kee\<close> (always); every
  entry of the slave-master block \<open>Ken\<close> only when that block has nonzero dimensions;
  every entry of the master-slave block \<open>Kne\<close> (always); every entry of the
  master-master block \<open>Knn\<close> only when that block has nonzero dimensions. A block that is
  skipped is left unchanged. \<open>Kee\<close> and \<open>Kne\<close> are resized (and so zeroed) first, and
  their entries end as \<open>0 + value\<close>; an entry of \<open>Ken\<close> or \<open>Knn\<close> inside the block's
  storage ends as \<open>old + value\<close>. No other neighbor block changes.
  \<^verbatim>\<open>computeOffDiagJacobian(jvar)\<close> returns as well, and makes the \<^verbatim>\<open>+=\<close> of the
  slave-slave, the slave-master and the master-master block always, the last two with
  the value 0 at every entry; it skips only the master-slave block, when the dimensions of
  the resized \<open>Kne\<close> (number of master test functions, number of connected dofs) are
  zero.
\<close>

theorem C9_block_assembly:
  "formulation s = KINEMATIC \<or> formulation s = PENALTY \<longrightarrow>
     (let s1 = getConnectedDofIndices (var_number s) s;
          Ken = NeighborBlock ElementNeighbor (var_number s) (var_number s);
          Knn = NeighborBlock NeighborNeighbor (master_var_number s) (var_number s);
          M = length (test_slave s); Mm = length (test_master s);
          N = length (connected_dof_indices s1); P = length (phi_master s);
          ken_used = (dm_m (get_block Ken s) \<noteq> 0 \<and> dm_n (get_block Ken s) \<noteq> 0);
          knn_used = (dm_m (get_block Knn s) \<noteq> 0 \<and> dm_n (get_block Knn s) \<noteq> 0)
      in case computeJacobian s of
           Inl e \<Rightarrow> False
         | Inr s' \<Rightarrow>
             accumulated s' =
               accumulated s
               @ additions KeeBlock M N (qp_jacobian_value SlaveSlave s1)
               @ (if ken_used then additions Ken M P (qp_jacobian_value SlaveMaster s1) else [])
               @ additions KneBlock Mm N (qp_jacobian_value MasterSlave s1)
               @ (if knn_used then additions Knn Mm P (qp_jacobian_value MasterMaster s1)
                  else [])
             \<and> dm_m (Kee s') = M \<and> dm_n (Kee s') = N
             \<and> (\<forall>i < M. \<forall>j < N.
                   dm_get (Kee s') i j = 0 + qp_jacobian_value SlaveSlave s1 i j)
             \<and> dm_m (Kne s') = Mm \<and> dm_n (Kne s') = N
             \<and> (\<forall>i < Mm. \<forall>j < N.
                   dm_get (Kne s') i j = 0 + qp_jacobian_value MasterSlave s1 i j)
             \<and> (\<not> ken_used \<longrightarrow> get_block Ken s' = get_block Ken s)
             \<and> (\<not> knn_used \<longrightarrow> get_block Knn s' = get_block Knn s)
             \<and> (ken_used
                  \<and> length (dm_val (get_block Ken s))
                      = dm_m (get_block Ken s) * dm_n (get_block Ken s)
                  \<and> M \<le> dm_m (get_block Ken s) \<and> P \<le> dm_n (get_block Ken s) \<longrightarrow>
                 (\<forall>i < M. \<forall>j < P.
                    dm_get (get_block Ken s') i j
                      = dm_get (get_block Ken s) i j + qp_jacobian_value SlaveMaster s1 i j))
             \<and> (knn_used
                  \<and> length (dm_val (get_block Knn s))
                      = dm_m (get_block Knn s) * dm_n (get_block Knn s)
                  \<and> Mm \<le> dm_m (get_block Knn s) \<and> P \<le> dm_n (get_block Knn s) \<longrightarrow>
                 (\<forall>i < Mm. \<forall>j < P.
                    dm_get (get_block Knn s') i j
                      = dm_get (get_block Knn s) i j + qp_jacobian_value MasterMaster s1 i j))
             \<and> (\<forall>t iv jv. NeighborBlock t iv jv \<noteq> Ken \<and> NeighborBlock t iv jv \<noteq> Knn \<longrightarrow>
                   jacobianBlockNeighbor s' t iv jv = jacobianBlockNeighbor s t iv jv))
     \<and> (let s1 = getConnectedDofIndices jvar s;
              Ken = NeighborBlock ElementNeighbor (var_number s) jvar;
              Knn = NeighborBlock NeighborNeighbor (master_var_number s) jvar;
              M = length (test_slave s); Mm = length (test_master s);
              N = length (connected_dof_indices s1); P = length (phi_master s)
          in case computeOffDiagJacobian jvar s of
               Inl e \<Rightarrow> False
             | Inr s' \<Rightarrow>
                 accumulated s' =
                   accumulated s
                   @ additions KeeBlock M N (qp_offdiag_value SlaveSlave jvar s1)
                   @ additions Ken M P (\<lambda>i j. 0)
                   @ (if Mm \<noteq> 0 \<and> N \<noteq> 0
                      then additions KneBlock Mm N (qp_offdiag_value MasterSlave jvar s1)
                      else [])
                   @ additions Knn Mm P (\<lambda>i j. 0)
                 \<and> dm_m (Kee s') = M \<and> dm_n (Kee s') = N
                 \<and> (\<forall>i < M. \<forall>j < N.
                       dm_get (Kee s') i j = 0 + qp_offdiag_value SlaveSlave jvar s1 i j)
                 \<and> dm_m (Kne s') = Mm \<and> dm_n (Kne s') = N
                 \<and> (\<forall>i < Mm. \<forall>j < N.
                       dm_get (Kne s') i j = 0 + qp_offdiag_value MasterSlave jvar s1 i j)
                 \<and> (Mm = 0 \<or> N = 0 \<longrightarrow> Kne s' = dm_resize Mm N (Kne s))
                 \<and> (length (dm_val (get_block Ken s))
                       = dm_m (get_block Ken s) * dm_n (get_block Ken s)
                      \<and> M \<le> dm_m (get_block Ken s) \<and> P \<le> dm_n (get_block Ken s) \<longrightarrow>
                     (\<forall>i < M. \<forall>j < P.
                        dm_get (get_block Ken s') i j = dm_get (get_block Ken s) i j + 0))
                 \<and> (length (dm_val (get_block Knn s))
                       = dm_m (get_block Knn s) * dm_n (get_block Knn s)
                      \<and> Mm \<le> dm_m (get_block Knn s) \<and> P \<le> dm_n (get_block Knn s) \<longrightarrow>
                     (\<forall>i < Mm. \<forall>j < P.
                        dm_get (get_block Knn s') i j = dm_get (get_block Knn s) i j + 0))
                 \<and> (\<forall>t iv jv. NeighborBlock t iv jv \<noteq> Ken \<and> NeighborBlock t iv jv \<noteq> Knn \<longrightarrow>
                       jacobianBlockNeighbor s' t iv jv = jacobianBlockNeighbor s t iv jv))"
proof (intro impI conjI)
  assume valid: "formulation s = KINEMATIC \<or> formulation s = PENALTY"
  show "let s1 = getConnectedDofIndices (var_number s) s;
          Ken = NeighborBlock ElementNeighbor (var_number s) (var_number s);
          Knn = NeighborBlock NeighborNeighbor (master_var_number s) (var_number s);
          M = length (test_slave s); Mm = length (test_master s);
          N = length (connected_dof_indices s1); P = length (phi_master s);
          ken_used = (dm_m (get_block Ken s) \<noteq> 0 \<and> dm_n (get_block Ken s) \<noteq> 0);
          knn_used = (dm_m (get_block Knn s) \<noteq> 0 \<and> dm_n (get_block Knn s) \<noteq> 0)
      in case computeJacobian s of
           Inl e \<Rightarrow> False
         | Inr s' \<Rightarrow>
             accumulated s' =
               accumulated s
               @ additions KeeBlock M N (qp_jacobian_value SlaveSlave s1)
               @ (if ken_used then additions Ken M P (qp_jacobian_value SlaveMaster s1) else [])
               @ additions KneBlock Mm N (qp_jacobian_value MasterSlave s1)
               @ (if knn_used then additions Knn Mm P (qp_jacobian_value MasterMaster s1)
                  else [])
             \<and> dm_m (Kee s') = M \<and> dm_n (Kee s') = N
             \<and> (\<forall>i < M. \<forall>j < N.
                   dm_get (Kee s') i j = 0 + qp_jacobian_value SlaveSlave s1 i j)
             \<and> dm_m (Kne s') = Mm \<and> dm_n (Kne s') = N
             \<and> (\<forall>i < Mm. \<forall>j < N.
                   dm_get (Kne s') i j = 0 + qp_jacobian_value MasterSlave s1 i j)
             \<and> (\<not> ken_used \<longrightarrow> get_block Ken s' = get_block Ken s)
             \<and> (\<not> knn_used \<longrightarrow> get_block Knn s' = get_block Knn s)
             \<and> (ken_used
                  \<and> length (dm_val (get_block Ken s))
                      = dm_m (get_block Ken s) * dm_n (get_block Ken s)
                  \<and> M \<le> dm_m (get_block Ken s) \<and> P \<le> dm_n (get_block Ken s) \<longrightarrow>
                 (\<forall>i < M. \<forall>j < P.
                    dm_get (get_block Ken s') i j
                      = dm_get (get_block Ken s) i j + qp_jacobian_value SlaveMaster s1 i j))
             \<and> (knn_used
                  \<and> length (dm_val (get_block Knn s))
                      = dm_m (get_block Knn s) * dm_n (get_block Knn s)
                  \<and> Mm \<le> dm_m (get_block Knn s) \<and> P \<le> dm_n (get_block Knn s) \<longrightarrow>
                 (\<forall>i < Mm. \<forall>j < P.
                    dm_get (get_block Knn s') i j
                      = dm_get (get_block Knn s) i j + qp_jacobian_value MasterMaster s1 i j))
             \<and> (\<forall>t iv jv. NeighborBlock t iv jv \<noteq> Ken \<and> NeighborBlock t iv jv \<noteq> Knn \<longrightarrow>
                   jacobianBlockNeighbor s' t iv jv = jacobianBlockNeighbor s t iv jv)"
    using computeJacobian_blocks [OF valid] unfolding Let_def
    by (elim exE conjE)
       (simp add: apply_additions_dims dm_resize_dims dm_get_apply_additions_resize
          dm_get_apply_additions del: add_0 add.left_neutral)
next
  assume valid: "formulation s = KINEMATIC \<or> formulation s = PENALTY"
  show "let s1 = getConnectedDofIndices jvar s;
              Ken = NeighborBlock ElementNeighbor (var_number s) jvar;
              Knn = NeighborBlock NeighborNeighbor (master_var_number s) jvar;
              M = length (test_slave s); Mm = length (test_master s);
              N = length (connected_dof_indices s1); P = length (phi_master s)
          in case computeOffDiagJacobian jvar s of
               Inl e \<Rightarrow> False
             | Inr s' \<Rightarrow>
                 accumulated s' =
                   accumulated s
                   @ additions KeeBlock M N (qp_offdiag_value SlaveSlave jvar s1)
                   @ additions Ken M P (\<lambda>i j. 0)
                   @ (if Mm \<noteq> 0 \<and> N \<noteq> 0
                      then additions KneBlock Mm N (qp_offdiag_value MasterSlave jvar s1)
                      else [])
                   @ additions Knn Mm P (\<lambda>i j. 0)
                 \<and> dm_m (Kee s') = M \<and> dm_n (Kee s') = N
                 \<and> (\<forall>i < M. \<forall>j < N.
                       dm_get (Kee s') i j = 0 + qp_offdiag_value SlaveSlave jvar s1 i j)
                 \<and> dm_m (Kne s') = Mm \<and> dm_n (Kne s') = N
                 \<and> (\<forall>i < Mm. \<forall>j < N.
                       dm_get (Kne s') i j = 0 + qp_offdiag_value MasterSlave jvar s1 i j)
                 \<and> (Mm = 0 \<or> N = 0 \<longrightarrow> Kne s' = dm_resize Mm N (Kne s))
                 \<and> (length (dm_val (get_block Ken s))
                       = dm_m (get_block Ken s) * dm_n (get_block Ken s)
                      \<and> M \<le> dm_m (get_block Ken s) \<and> P \<le> dm_n (get_block Ken s) \<longrightarrow>
                     (\<forall>i < M. \<forall>j < P.
                        dm_get (get_block Ken s') i j = dm_get (get_block Ken s) i j + 0))
                 \<and> (length (dm_val (get_block Knn s))
                       = dm_m (get_block Knn s) * dm_n (get_block Knn s)
                      \<and> Mm \<le> dm_m (get_block Knn s) \<and> P \<le> dm_n (get_block Knn s) \<longrightarrow>
                     (\<forall>i < Mm. \<forall>j < P.
                        dm_get (get_block Knn s') i j = dm_get (get_block Knn s) i j + 0))
                 \<and> (\<forall>t iv jv. NeighborBlock t iv jv \<noteq> Ken \<and> NeighborBlock t iv jv \<noteq> Knn \<longrightarrow>
                       jacobianBlockNeighbor s' t iv jv = jacobianBlockNeighbor s t iv jv)"
    using computeOffDiagJacobian_blocks [OF valid, of jvar] unfolding Let_def
    by (elim exE conjE)
       (auto simp add: apply_additions_dims dm_resize_dims dm_get_apply_additions_resize
          dm_get_apply_additions dm_get_resize
          simp del: add_0 add.left_neutral add_0_right add.right_neutral)
qed

text \<open>The runs on the small configurations.\<close>

lemma example_fields:
  "formulation example_constraint = PENALTY" "penalty example_constraint = 10"
  "var_number example_constraint = 0" "master_var_number example_constraint = 0"
  "sys_number example_constraint = 0"
  "test_slave example_constraint = [[1]]" "test_master example_constraint = [[1 / 2], [1 / 2]]"
  "phi_master example_constraint = [[1 / 2], [1 / 2]]"
  "connected_dofs_of example_constraint = (\<lambda>v. [3, 4, 8])"
  "nodalDofIndex example_constraint = (\<lambda>v. 4)"
  "jacobian example_constraint = (\<lambda>r c. real (r + 2 * c))"
  "dof_number (current_node example_constraint) = (\<lambda>sys var comp. 4)"
  "accumulated example_constraint = []"
  "Kee example_constraint = \<lparr>dm_m = 0, dm_n = 0, dm_val = []\<rparr>"
  "Kne example_constraint = \<lparr>dm_m = 0, dm_n = 0, dm_val = []\<rparr>"
  "jacobianBlockNeighbor example_constraint
     = (\<lambda>t ivar jvar. \<lparr>dm_m = 0, dm_n = 0, dm_val = []\<rparr>)"
  by (simp_all add: example_constraint_def example_node_def)

lemma example_additions:
  "additions KeeBlock (Suc 0) (Suc (Suc (Suc 0))) (qp_jacobian_value SlaveSlave (getConnectedDofIndices 0 example_constraint))
     = [(KeeBlock, 0, 0, 0), (KeeBlock, 0, 1, 10), (KeeBlock, 0, 2, 0)]"
  "additions KneBlock (Suc (Suc 0)) (Suc (Suc (Suc 0))) (qp_jacobian_value MasterSlave (getConnectedDofIndices 0 example_constraint))
     = [(KneBlock, 0, 0, 0), (KneBlock, 0, 1, - 5), (KneBlock, 0, 2, 0),
        (KneBlock, 1, 0, 0), (KneBlock, 1, 1, - 5), (KneBlock, 1, 2, 0)]"
  by (simp_all add: additions_def qp_jacobian_value_def computeQpJacobian_def
        getConnectedDofIndices_eq example_fields)

lemma example_blocks_fields:
  "formulation example_blocks = PENALTY" "penalty example_blocks = 10"
  "var_number example_blocks = 0" "master_var_number example_blocks = 0"
  "sys_number example_blocks = 0"
  "test_slave example_blocks = [[1]]" "test_master example_blocks = [[1 / 2], [1 / 2]]"
  "phi_master example_blocks = [[1 / 2], [1 / 2]]"
  "connected_dofs_of example_blocks = (\<lambda>v. [3, 4, 8])"
  "nodalDofIndex example_blocks = (\<lambda>v. 4)"
  "jacobian example_blocks = (\<lambda>r c. real (r + 2 * c))"
  "dof_number (current_node example_blocks) = (\<lambda>sys var comp. 4)"
  "accumulated example_blocks = []"
  "jacobianBlockNeighbor example_blocks
     = (\<lambda>t ivar jvar. \<lparr>dm_m = 2, dm_n = 2, dm_val = [1, 1, 1, 1]\<rparr>)"
  by (simp_all add: example_blocks_def example_fields)

lemma example_no_master_fields:
  "formulation example_no_master = PENALTY"
  "var_number example_no_master = 0" "master_var_number example_no_master = 0"
  "test_master example_no_master = []"
  "connected_dofs_of example_no_master = (\<lambda>v. [3, 4, 8])"
  "Kne example_no_master = \<lparr>dm_m = 0, dm_n = 0, dm_val = []\<rparr>"
  by (simp_all add: example_no_master_def example_fields)

lemma example_blocks_additions:
  "additions KeeBlock (Suc 0) (Suc (Suc (Suc 0)))
     (qp_jacobian_value SlaveSlave (getConnectedDofIndices 0 example_blocks))
     = [(KeeBlock, 0, 0, 0), (KeeBlock, 0, 1, 10), (KeeBlock, 0, 2, 0)]"
  "additions (NeighborBlock ElementNeighbor 0 0) (Suc 0) (Suc (Suc 0))
     (qp_jacobian_value SlaveMaster (getConnectedDofIndices 0 example_blocks))
     = [(NeighborBlock ElementNeighbor 0 0, 0, 0, - 5),
        (NeighborBlock ElementNeighbor 0 0, 0, 1, - 5)]"
  "additions KneBlock (Suc (Suc 0)) (Suc (Suc (Suc 0)))
     (qp_jacobian_value MasterSlave (getConnectedDofIndices 0 example_blocks))
     = [(KneBlock, 0, 0, 0), (KneBlock, 0, 1, - 5), (KneBlock, 0, 2, 0),
        (KneBlock, 1, 0, 0), (KneBlock, 1, 1, - 5), (KneBlock, 1, 2, 0)]"
  "additions (NeighborBlock NeighborNeighbor 0 0) (Suc (Suc 0)) (Suc (Suc 0))
     (qp_jacobian_value MasterMaster (getConnectedDofIndices 0 example_blocks))
     = [(NeighborBlock NeighborNeighbor 0 0, 0, 0, 5 / 2),
        (NeighborBlock NeighborNeighbor 0 0, 0, 1, 5 / 2),
        (NeighborBlock NeighborNeighbor 0 0, 1, 0, 5 / 2),
        (NeighborBlock NeighborNeighbor 0 0, 1, 1, 5 / 2)]"
  "additions KeeBlock (Suc 0) (Suc (Suc (Suc 0)))
     (qp_offdiag_value SlaveSlave 2 (getConnectedDofIndices 2 example_blocks))
     = [(KeeBlock, 0, 0, - 10), (KeeBlock, 0, 1, - 12), (KeeBlock, 0, 2, - 20)]"
  "additions (NeighborBlock ElementNeighbor 0 2) (Suc 0) (Suc (Suc 0)) (\<lambda>i j. 0)
     = [(NeighborBlock ElementNeighbor 0 2, 0, 0, 0),
        (NeighborBlock ElementNeighbor 0 2, 0, 1, 0)]"
  "additions KneBlock (Suc (Suc 0)) (Suc (Suc (Suc 0)))
     (qp_offdiag_value MasterSlave 2 (getConnectedDofIndices 2 example_blocks))
     = [(KneBlock, 0, 0, 0), (KneBlock, 0, 1, 0), (KneBlock, 0, 2, 0),
        (KneBlock, 1, 0, 0), (KneBlock, 1, 1, 0), (KneBlock, 1, 2, 0)]"
  "additions (NeighborBlock NeighborNeighbor 0 2) (Suc (Suc 0)) (Suc (Suc 0)) (\<lambda>i j. 0)
     = [(NeighborBlock NeighborNeighbor 0 2, 0, 0, 0),
        (NeighborBlock NeighborNeighbor 0 2, 0, 1, 0),
        (NeighborBlock NeighborNeighbor 0 2, 1, 0, 0),
        (NeighborBlock NeighborNeighbor 0 2, 1, 1, 0)]"
  by (simp_all add: additions_def qp_jacobian_value_def computeQpJacobian_def
        qp_offdiag_value_def computeQpOffDiagJacobian_def
        getConnectedDofIndices_eq example_blocks_fields)

theorem C9_block_assembly_witness:
  "(case computeJacobian example_constraint of
      Inl e \<Rightarrow> False
    | Inr s' \<Rightarrow>
        accumulated s'
          = [(KeeBlock, 0, 0, 0), (KeeBlock, 0, 1, 10), (KeeBlock, 0, 2, 0),
             (KneBlock, 0, 0, 0), (KneBlock, 0, 1, - 5), (KneBlock, 0, 2, 0),
             (KneBlock, 1, 0, 0), (KneBlock, 1, 1, - 5), (KneBlock, 1, 2, 0)]
        \<and> dm_m (Kee s') = 1 \<and> dm_n (Kee s') = 3 \<and> dm_get (Kee s') 0 1 = 10
        \<and> jacobianBlockNeighbor s' ElementNeighbor 0 0 = \<lparr>dm_m = 0, dm_n = 0, dm_val = []\<rparr>
        \<and> jacobianBlockNeighbor s' NeighborNeighbor 0 0 = \<lparr>dm_m = 0, dm_n = 0, dm_val = []\<rparr>)
   \<and> (case computeJacobian example_blocks of
        Inl e \<Rightarrow> False
      | Inr s' \<Rightarrow>
          accumulated s'
            = [(KeeBlock, 0, 0, 0), (KeeBlock, 0, 1, 10), (KeeBlock, 0, 2, 0),
               (NeighborBlock ElementNeighbor 0 0, 0, 0, - 5),
               (NeighborBlock ElementNeighbor 0 0, 0, 1, - 5),
               (KneBlock, 0, 0, 0), (KneBlock, 0, 1, - 5), (KneBlock, 0, 2, 0),
               (KneBlock, 1, 0, 0), (KneBlock, 1, 1, - 5), (KneBlock, 1, 2, 0),
               (NeighborBlock NeighborNeighbor 0 0, 0, 0, 5 / 2),
               (NeighborBlock NeighborNeighbor 0 0, 0, 1, 5 / 2),
               (NeighborBlock NeighborNeighbor 0 0, 1, 0, 5 / 2),
               (NeighborBlock NeighborNeighbor 0 0, 1, 1, 5 / 2)]
          \<and> dm_get (Kne s') 1 1 = - 5
          \<and> dm_get (jacobianBlockNeighbor s' ElementNeighbor 0 0) 0 1 = - 4
          \<and> dm_get (jacobianBlockNeighbor s' NeighborNeighbor 0 0) 1 1 = 7 / 2
          \<and> jacobianBlockNeighbor s' ElementElement 0 0
              = \<lparr>dm_m = 2, dm_n = 2, dm_val = [1, 1, 1, 1]\<rparr>)
   \<and> (case computeOffDiagJacobian 2 example_blocks of
        Inl e \<Rightarrow> False
      | Inr s' \<Rightarrow>
          accumulated s'
            = [(KeeBlock, 0, 0, - 10), (KeeBlock, 0, 1, - 12), (KeeBlock, 0, 2, - 20),
               (NeighborBlock ElementNeighbor 0 2, 0, 0, 0),
               (NeighborBlock ElementNeighbor 0 2, 0, 1, 0),
               (KneBlock, 0, 0, 0), (KneBlock, 0, 1, 0), (KneBlock, 0, 2, 0),
               (KneBlock, 1, 0, 0), (KneBlock, 1, 1, 0), (KneBlock, 1, 2, 0),
               (NeighborBlock NeighborNeighbor 0 2, 0, 0, 0),
               (NeighborBlock NeighborNeighbor 0 2, 0, 1, 0),
               (NeighborBlock NeighborNeighbor 0 2, 1, 0, 0),
               (NeighborBlock NeighborNeighbor 0 2, 1, 1, 0)]
          \<and> dm_get (Kee s') 0 2 = - 20
          \<and> dm_get (jacobianBlockNeighbor s' ElementNeighbor 0 2) 0 1 = 1
          \<and> dm_get (jacobianBlockNeighbor s' NeighborNeighbor 0 2) 1 1 = 1)
   \<and> (case computeOffDiagJacobian 2 example_no_master of
        Inl e \<Rightarrow> False
      | Inr s' \<Rightarrow> Kne s' = \<lparr>dm_m = 0, dm_n = 3, dm_val = []\<rparr>)"
proof -
  have vA: "formulation example_constraint = KINEMATIC \<or> formulation example_constraint = PENALTY"
    by (simp add: example_fields)
  have vB: "formulation example_blocks = KINEMATIC \<or> formulation example_blocks = PENALTY"
    by (simp add: example_blocks_fields)
  have vC: "formulation example_no_master = KINEMATIC \<or> formulation example_no_master = PENALTY"
    by (simp add: example_no_master_fields)
  note tA = C9_block_assembly [of example_constraint 2, THEN mp, OF vA, THEN conjunct1,
      unfolded Let_def]
  note tB = C9_block_assembly [of example_blocks 2, THEN mp, OF vB, THEN conjunct1,
      unfolded Let_def]
  note tB' = C9_block_assembly [of example_blocks 2, THEN mp, OF vB, THEN conjunct2,
      unfolded Let_def]
  note tC = C9_block_assembly [of example_no_master 2, THEN mp, OF vC, THEN conjunct2,
      unfolded Let_def]
  have A: "case computeJacobian example_constraint of
      Inl e \<Rightarrow> False
    | Inr s' \<Rightarrow>
        accumulated s'
          = [(KeeBlock, 0, 0, 0), (KeeBlock, 0, 1, 10), (KeeBlock, 0, 2, 0),
             (KneBlock, 0, 0, 0), (KneBlock, 0, 1, - 5), (KneBlock, 0, 2, 0),
             (KneBlock, 1, 0, 0), (KneBlock, 1, 1, - 5), (KneBlock, 1, 2, 0)]
        \<and> dm_m (Kee s') = 1 \<and> dm_n (Kee s') = 3 \<and> dm_get (Kee s') 0 1 = 10
        \<and> jacobianBlockNeighbor s' ElementNeighbor 0 0 = \<lparr>dm_m = 0, dm_n = 0, dm_val = []\<rparr>
        \<and> jacobianBlockNeighbor s' NeighborNeighbor 0 0 = \<lparr>dm_m = 0, dm_n = 0, dm_val = []\<rparr>"
  proof (cases "computeJacobian example_constraint")
    case (Inl e)
    with tA show ?thesis by simp
  next
    case (Inr s')
    from tA show ?thesis
      by (simp add: Inr example_fields getConnectedDofIndices_frame example_additions
            get_block_def,
          simp add: All_less_Suc qp_jacobian_value_def computeQpJacobian_def
            getConnectedDofIndices_eq example_fields)
  qed
  have B: "case computeJacobian example_blocks of
        Inl e \<Rightarrow> False
      | Inr s' \<Rightarrow>
          accumulated s'
            = [(KeeBlock, 0, 0, 0), (KeeBlock, 0, 1, 10), (KeeBlock, 0, 2, 0),
               (NeighborBlock ElementNeighbor 0 0, 0, 0, - 5),
               (NeighborBlock ElementNeighbor 0 0, 0, 1, - 5),
               (KneBlock, 0, 0, 0), (KneBlock, 0, 1, - 5), (KneBlock, 0, 2, 0),
               (KneBlock, 1, 0, 0), (KneBlock, 1, 1, - 5), (KneBlock, 1, 2, 0),
               (NeighborBlock NeighborNeighbor 0 0, 0, 0, 5 / 2),
               (NeighborBlock NeighborNeighbor 0 0, 0, 1, 5 / 2),
               (NeighborBlock NeighborNeighbor 0 0, 1, 0, 5 / 2),
               (NeighborBlock NeighborNeighbor 0 0, 1, 1, 5 / 2)]
          \<and> dm_get (Kne s') 1 1 = - 5
          \<and> dm_get (jacobianBlockNeighbor s' ElementNeighbor 0 0) 0 1 = - 4
          \<and> dm_get (jacobianBlockNeighbor s' NeighborNeighbor 0 0) 1 1 = 7 / 2
          \<and> jacobianBlockNeighbor s' ElementElement 0 0
              = \<lparr>dm_m = 2, dm_n = 2, dm_val = [1, 1, 1, 1]\<rparr>"
  proof (cases "computeJacobian example_blocks")
    case (Inl e)
    with tB show ?thesis by simp
  next
    case (Inr s')
    from tB show ?thesis
      by (simp add: Inr example_blocks_fields getConnectedDofIndices_frame
            example_blocks_additions get_block_def,
          simp add: All_less_Suc qp_jacobian_value_def computeQpJacobian_def
            getConnectedDofIndices_eq dm_get_def example_blocks_fields)
  qed
  have B': "case computeOffDiagJacobian 2 example_blocks of
        Inl e \<Rightarrow> False
      | Inr s' \<Rightarrow>
          accumulated s'
            = [(KeeBlock, 0, 0, - 10), (KeeBlock, 0, 1, - 12), (KeeBlock, 0, 2, - 20),
               (NeighborBlock ElementNeighbor 0 2, 0, 0, 0),
               (NeighborBlock ElementNeighbor 0 2, 0, 1, 0),
               (KneBlock, 0, 0, 0), (KneBlock, 0, 1, 0), (KneBlock, 0, 2, 0),
               (KneBlock, 1, 0, 0), (KneBlock, 1, 1, 0), (KneBlock, 1, 2, 0),
               (NeighborBlock NeighborNeighbor 0 2, 0, 0, 0),
               (NeighborBlock NeighborNeighbor 0 2, 0, 1, 0),
               (NeighborBlock NeighborNeighbor 0 2, 1, 0, 0),
               (NeighborBlock NeighborNeighbor 0 2, 1, 1, 0)]
          \<and> dm_get (Kee s') 0 2 = - 20
          \<and> dm_get (jacobianBlockNeighbor s' ElementNeighbor 0 2) 0 1 = 1
          \<and> dm_get (jacobianBlockNeighbor s' NeighborNeighbor 0 2) 1 1 = 1"
  proof (cases "computeOffDiagJacobian 2 example_blocks")
    case (Inl e)
    with tB' show ?thesis by simp
  next
    case (Inr s')
    from tB' show ?thesis
      by (simp add: Inr example_blocks_fields getConnectedDofIndices_frame
            example_blocks_additions get_block_def,
          simp add: All_less_Suc qp_offdiag_value_def computeQpOffDiagJacobian_def
            getConnectedDofIndices_eq dm_get_def example_blocks_fields)
  qed
  have C: "case computeOffDiagJacobian 2 example_no_master of
        Inl e \<Rightarrow> False
      | Inr s' \<Rightarrow> Kne s' = \<lparr>dm_m = 0, dm_n = 3, dm_val = []\<rparr>"
  proof (cases "computeOffDiagJacobian 2 example_no_master")
    case (Inl e)
    with tC show ?thesis by simp
  next
    case (Inr s')
    from tC show ?thesis
      by (simp add: Inr example_no_master_fields getConnectedDofIndices_frame
            dm_resize_def dm_zero_def vec_resize_def)
  qed
  show ?thesis
    using A B B' C by blast
qed

end
